theory Spec2Isabelle
  imports Complex_Main
begin

section \<open>Numbers and library functions\<close>

text \<open>
  The program computes with JavaScript numbers. They are modelled by the reals: every
  arithmetic operation, \<open>Math.sin\<close>, \<open>Math.cos\<close> and \<open>Math.PI\<close> is taken exactly, so
  rounding, NaN, the infinities and the sign of zero are outside this development.
  Level numbers and coins, which the program only ever adds and compares, are integers.

  Reading an array outside its bounds yields \<open>undefined\<close> in JavaScript, and reading a
  field of \<open>undefined\<close> throws a TypeError; \<open>elem_at\<close> is the bounds-checked read and the
  error is a value of the model.
\<close>

datatype error = TypeError

definition elem_at :: "'a list \<Rightarrow> int \<Rightarrow> 'a option" where
  "elem_at xs i = (if 0 \<le> i \<and> i < int (length xs) then Some (xs ! nat i) else None)"

text \<open>The operator \<open>%\<close>: the remainder of the division truncated towards zero, with the
  sign of the dividend.\<close>

definition trunc :: "real \<Rightarrow> int" where
  "trunc r = (if 0 \<le> r then \<lfloor>r\<rfloor> else \<lceil>r\<rceil>)"

definition js_rem :: "real \<Rightarrow> real \<Rightarrow> real" where
  "js_rem a b = a - b * real_of_int (trunc (a / b))"

text \<open>\<open>Math.atan2(y, x)\<close>, the angle of the point \<open>(x, y)\<close> in \<open>(-\<pi>, \<pi>]\<close>.\<close>

definition atan2 :: "real \<Rightarrow> real \<Rightarrow> real" where
  "atan2 y x =
     (if 0 < x then arctan (y / x)
      else if x < 0 then (if 0 \<le> y then arctan (y / x) + pi else arctan (y / x) - pi)
      else if 0 < y then pi / 2
      else if y < 0 then - (pi / 2)
      else 0)"

section \<open>Constants\<close>

definition GRAVITY :: real where "GRAVITY = 0.22"
definition ACCELERATION :: real where "ACCELERATION = 0.25"
definition NITRO_ACCELERATION :: real where "NITRO_ACCELERATION = 0.8"
definition BRAKE_FORCE :: real where "BRAKE_FORCE = 0.4"
definition FRICTION :: real where "FRICTION = 0.96"
definition MAX_SPEED :: real where "MAX_SPEED = 28"
definition MAX_NITRO_SPEED :: real where "MAX_NITRO_SPEED = 60"
definition ROTATION_SPEED :: real where "ROTATION_SPEED = 0.04"
definition AIR_ROTATION_BOOST :: real where "AIR_ROTATION_BOOST = 1.8"
definition ANGULAR_DAMPING :: real where "ANGULAR_DAMPING = 0.92"
definition WHEEL_BASE :: real where "WHEEL_BASE = 70"
definition CANVAS_HEIGHT :: real where "CANVAS_HEIGHT = 1080"

lemmas constants =
  GRAVITY_def ACCELERATION_def NITRO_ACCELERATION_def BRAKE_FORCE_def FRICTION_def
  MAX_SPEED_def MAX_NITRO_SPEED_def ROTATION_SPEED_def AIR_ROTATION_BOOST_def
  ANGULAR_DAMPING_def WHEEL_BASE_def CANVAS_HEIGHT_def

section \<open>Terrain\<close>

text \<open>The interface \<open>Point\<close>; its fields \<open>x\<close> and \<open>y\<close> are \<open>pt_x\<close> and \<open>pt_y\<close> here.\<close>

record Point =
  pt_x :: real
  pt_y :: real

definition segmentLength :: real where
  "segmentLength = 50"

text \<open>One pass through the body of the loop of \<open>generateTerrain\<close>: the sample pushed at
  index \<open>i\<close>. The variable \<open>currentY\<close> is assigned before it is read in every pass, so
  the body depends on \<open>i\<close>, \<open>totalSegments\<close> and \<open>seed\<close> only.\<close>

definition terrainPoint :: "int \<Rightarrow> int \<Rightarrow> real \<Rightarrow> Point" where
  "terrainPoint i totalSegments seed =
     (let x = real_of_int i * segmentLength;
          rampFrequency = 0.15;
          rampHeight = 400;
          noise1 = sin (real_of_int i * 0.1 + seed) * 100;
          rampPhase = real_of_int i * rampFrequency + seed * 3;
          ramp = sin rampPhase ^ 5;
          noise2 = (if 0 < ramp then ramp * rampHeight else 0);
          noise = noise1 + noise2;
          noise = (if i < 20 then noise * (real_of_int i / 20) else noise);
          noise = (if totalSegments - 20 < i
                   then noise * (real_of_int (totalSegments - i) / 20) else noise);
          currentY = CANVAS_HEIGHT * 0.7 - noise;
          currentY = (if CANVAS_HEIGHT - 50 < currentY then CANVAS_HEIGHT - 50 else currentY);
          currentY = (if currentY < 100 then 100 else currentY)
      in \<lparr>pt_x = x, pt_y = currentY\<rparr>)"

text \<open>The loop \<open>for (let i = 0; i <= totalSegments; i++)\<close>, pushing onto \<open>points\<close>.\<close>

function terrainLoop :: "int \<Rightarrow> int \<Rightarrow> real \<Rightarrow> Point list \<Rightarrow> Point list" where
  "terrainLoop i totalSegments seed points =
     (if i \<le> totalSegments
      then terrainLoop (i + 1) totalSegments seed (points @ [terrainPoint i totalSegments seed])
      else points)"
  by pat_completeness auto
termination
  by (relation "measure (\<lambda>(i, totalSegments, seed, points). nat (totalSegments + 1 - i))") auto

declare terrainLoop.simps [simp del]

definition generateTerrain :: "real \<Rightarrow> real \<Rightarrow> Point list" where
  "generateTerrain len seed =
     (let totalSegments = \<lceil>len / segmentLength\<rceil>
      in terrainLoop 0 totalSegments seed [])"

text \<open>\<open>getTerrainHeight\<close>: every array read is bounds-checked, and a read that misses
  is the TypeError the field access throws.\<close>

definition getTerrainHeight :: "real \<Rightarrow> Point list \<Rightarrow> error + real" where
  "getTerrainHeight x terrain =
     (if x < 0 then (case elem_at terrain 0 of None \<Rightarrow> Inl TypeError | Some p \<Rightarrow> Inr (pt_y p))
      else
        let index = \<lfloor>x / segmentLength\<rfloor> in
        if int (length terrain) - 1 \<le> index
        then (case elem_at terrain (int (length terrain) - 1) of
                None \<Rightarrow> Inl TypeError | Some p \<Rightarrow> Inr (pt_y p))
        else
          (case elem_at terrain index of
             None \<Rightarrow> Inl TypeError
           | Some p1 \<Rightarrow>
              (case elem_at terrain (index + 1) of
                 None \<Rightarrow> Inl TypeError
               | Some p2 \<Rightarrow>
                   let t = (x - pt_x p1) / segmentLength
                   in Inr (pt_y p1 + (pt_y p2 - pt_y p1) * t))))"

text \<open>The invariant of a terrain profile: sample \<open>i\<close> lies at \<open>x = i * segmentLength\<close>.\<close>

definition uniform :: "Point list \<Rightarrow> bool" where
  "uniform terrain \<longleftrightarrow> (\<forall>i < length terrain. pt_x (terrain ! i) = real i * segmentLength)"

section \<open>Bike, inputs and the state of the application\<close>

text \<open>The interface \<open>BikePhysics\<close>; its fields \<open>x\<close> and \<open>y\<close> are \<open>bike_x\<close> and \<open>bike_y\<close>.\<close>

record BikePhysics =
  bike_x :: real
  bike_y :: real
  velocity :: real
  angle :: real
  angularVelocity :: real
  lean :: real

record Inputs =
  throttle :: bool
  brake :: bool
  left :: bool
  right :: bool
  nitro :: bool

datatype GameState =
  MENU | LEVEL_SELECT | SHOP | PLAYING | PAUSED | WON | CRASHED | CREDITS | POLICY

text \<open>The object that \<open>saveData\<close> writes to the local storage.\<close>

record SaveData =
  saved_unlockedLevels :: int
  saved_coins :: int
  saved_ownedBikes :: "int list"
  saved_selectedBikeId :: int

text \<open>
  The state of the component \<open>App\<close>: the values held by \<open>useState\<close>, the mutable
  references (\<open>bikeRef\<close>, \<open>inputsRef\<close>, \<open>terrainRef\<close>, \<open>startTimeRef\<close>), the audio
  element (\<open>None\<close> when \<open>audioRef.current\<close> is null, otherwise whether it is paused) and
  the saved object in the local storage. A call of a state setter is an update of the
  record; of several calls for the same value in one frame the last one stands.
\<close>

record App =
  unlockedLevels :: int
  coins :: int
  ownedBikes :: "int list"
  selectedBikeId :: int
  gameState :: GameState
  currentLevel :: int
  time :: real
  isMuted :: bool
  bikeRef :: BikePhysics
  inputsRef :: Inputs
  terrainRef :: "Point list"
  startTimeRef :: real
  audioPaused :: "bool option"
  localStorage :: "SaveData option"

definition saveData :: "int \<Rightarrow> int \<Rightarrow> int list \<Rightarrow> int \<Rightarrow> App \<Rightarrow> App" where
  "saveData newLevel newCoins newBikes newSelected s =
     s\<lparr>localStorage := Some \<lparr>saved_unlockedLevels = newLevel, saved_coins = newCoins,
                               saved_ownedBikes = newBikes, saved_selectedBikeId = newSelected\<rparr>,
       unlockedLevels := newLevel,
       coins := newCoins,
       ownedBikes := newBikes,
       selectedBikeId := newSelected\<rparr>"

definition noInputs :: Inputs where
  "noInputs = \<lparr>throttle = False, brake = False, left = False, right = False, nitro = False\<rparr>"

text \<open>
  \<open>startLevel\<close>. The argument \<open>now\<close> is the value of \<open>Date.now()\<close>. The terrain reference
  is assigned before the first height is read, so a TypeError of that read leaves the
  new terrain behind; the error carries the state it leaves.
\<close>

definition startLevel :: "int \<Rightarrow> real \<Rightarrow> App \<Rightarrow> (error \<times> App) + App" where
  "startLevel levelId now s =
     (if unlockedLevels s < levelId then Inr s
      else
        let seed = levelId * 777;
            len = 4000 + levelId * 1500;
            s = s\<lparr>terrainRef := generateTerrain (real_of_int len) (real_of_int seed)\<rparr>
        in case getTerrainHeight 100 (terrainRef s) of
             Inl e \<Rightarrow> Inl (e, s)
           | Inr h \<Rightarrow>
               Inr (s\<lparr>bikeRef := \<lparr>bike_x = 100, bike_y = h, velocity = 0, angle = 0,
                                   angularVelocity = 0, lean = 0\<rparr>,
                       inputsRef := noInputs,
                       time := 0,
                       startTimeRef := now,
                       currentLevel := levelId,
                       gameState := PLAYING,
                       audioPaused := (if \<not> isMuted s \<and> audioPaused s = Some True
                                       then Some False else audioPaused s)\<rparr>))"

section \<open>The game loop\<close>

text \<open>
  The first part of \<open>gameLoop\<close>, from "1. Terrain Interaction" to the end of the angular
  physics: the new value of the bike. Both height reads come before the first
  assignment to the bike, so an error leaves the bike as it was.
\<close>

definition physicsUpdate :: "BikePhysics \<Rightarrow> Point list \<Rightarrow> Inputs \<Rightarrow> error + BikePhysics" where
  "physicsUpdate bike terrain inputs =
     (let rearX = bike_x bike;
          frontX = bike_x bike + cos (angle bike) * WHEEL_BASE
      in case getTerrainHeight rearX terrain of
           Inl e \<Rightarrow> Inl e
         | Inr groundRearY \<Rightarrow>
          (case getTerrainHeight frontX terrain of
             Inl e \<Rightarrow> Inl e
           | Inr groundFrontY \<Rightarrow>
              let isAirborne = (10 < \<bar>bike_y bike - groundRearY\<bar>);
                  targetAngle = atan2 (groundFrontY - groundRearY) (frontX - rearX);
                  v = velocity bike + sin (angle bike) * GRAVITY;
                  v = (if throttle inputs then v + ACCELERATION else v);
                  currentMaxSpeed = (if nitro inputs then MAX_NITRO_SPEED else MAX_SPEED);
                  v = (if nitro inputs then v + NITRO_ACCELERATION else v);
                  w = (if nitro inputs \<and> isAirborne
                       then angularVelocity bike - 0.02 else angularVelocity bike);
                  v = (if brake inputs then v - BRAKE_FORCE else v);
                  v = v * FRICTION;
                  v = (if currentMaxSpeed < v then currentMaxSpeed else v);
                  v = (if v < - MAX_SPEED then - MAX_SPEED else v);
                  x = bike_x bike + cos (angle bike) * v;
                  y = (if \<not> isAirborne \<and> groundRearY - 5 < bike_y bike
                       then groundRearY else groundRearY);
                  angleDiff = targetAngle - angle bike;
                  stability = (if nitro inputs then 0.05 else 0.15);
                  w = w + angleDiff * stability;
                  rotationForce = ROTATION_SPEED;
                  rotationForce = (if 0.5 < \<bar>angleDiff\<bar>
                                   then rotationForce * AIR_ROTATION_BOOST else rotationForce);
                  w = (if left inputs then w - rotationForce else w);
                  w = (if right inputs then w + rotationForce else w);
                  w = w * ANGULAR_DAMPING
              in Inr (bike\<lparr>bike_x := x, bike_y := y, velocity := v,
                           angularVelocity := w, angle := angle bike + w\<rparr>)))"

text \<open>"3. Crash Detection": the normalised angle and the head collision window.\<close>

definition normalizedAngle :: "real \<Rightarrow> real" where
  "normalizedAngle a = \<bar>js_rem a (pi * 2)\<bar>"

definition headCollision :: "real \<Rightarrow> bool" where
  "headCollision a \<longleftrightarrow> pi / 1.8 < normalizedAngle a \<and> normalizedAngle a < pi * 1.5"

text \<open>
  \<open>gameLoop\<close>. The argument \<open>now\<close> is the value of \<open>Date.now()\<close>. The bike is an object
  updated in place and the state setters have been called when the read of the finish
  line throws, so the error carries the state it leaves. Drawing the frame and asking
  for the next animation frame change nothing in the state.
\<close>

definition gameLoop :: "real \<Rightarrow> App \<Rightarrow> (error \<times> App) + App" where
  "gameLoop now s =
     (if gameState s \<noteq> PLAYING then Inr s
      else
        case physicsUpdate (bikeRef s) (terrainRef s) (inputsRef s) of
          Inl e \<Rightarrow> Inl (e, s)
        | Inr bike \<Rightarrow>
            let s = s\<lparr>bikeRef := bike\<rparr>;
                s = (if headCollision (angle bike) then s\<lparr>gameState := CRASHED\<rparr> else s)
            in (case elem_at (terrainRef s) (int (length (terrainRef s)) - 20) of
                 None \<Rightarrow> Inl (TypeError, s)
               | Some p \<Rightarrow>
                   let finishLine = pt_x p;
                       s = (if finishLine \<le> bike_x bike
                            then
                              (let reward = 50 + currentLevel s * 25;
                                   nextLevel = max (unlockedLevels s) (currentLevel s + 1);
                                   s = saveData nextLevel (coins s + reward) (ownedBikes s)
                                         (selectedBikeId s) s
                               in s\<lparr>gameState := WON\<rparr>)
                            else s)
                   in Inr (s\<lparr>time := (now - startTimeRef s) / 1000\<rparr>)))"

text \<open>
  A sequence of animation frames. Between two frames the input handlers may have set
  any of the flags, so each frame comes with the flags it reads and with its clock
  value. A frame that throws ends the sequence.
\<close>

fun frames :: "(real \<times> Inputs) list \<Rightarrow> App \<Rightarrow> (error \<times> App) + App" where
  "frames [] s = Inr s"
| "frames ((now, inputs) # rest) s =
     (case gameLoop now (s\<lparr>inputsRef := inputs\<rparr>) of
        Inl e \<Rightarrow> Inl e
      | Inr s' \<Rightarrow> frames rest s')"

text \<open>The bike after \<open>n\<close> updates on one terrain with the same flags held.\<close>

fun physicsTicks :: "nat \<Rightarrow> BikePhysics \<Rightarrow> Point list \<Rightarrow> Inputs \<Rightarrow> error + BikePhysics" where
  "physicsTicks 0 bike terrain inputs = Inr bike"
| "physicsTicks (Suc n) bike terrain inputs =
     (case physicsTicks n bike terrain inputs of
        Inl e \<Rightarrow> Inl e
      | Inr bike' \<Rightarrow> physicsUpdate bike' terrain inputs)"

section \<open>Notions used in the statements and proofs\<close>

text \<open>The state a call leaves, whether it returned or threw.\<close>

definition stateAfter :: "(error \<times> App) + App \<Rightarrow> App" where
  "stateAfter r = (case r of Inl (e, s) \<Rightarrow> s | Inr s \<Rightarrow> s)"

text \<open>The state of the component when it is mounted: the initial values given to
  \<open>useState\<close> and \<open>useRef\<close>, and nothing saved yet.\<close>

definition initialApp :: App where
  "initialApp =
     \<lparr>unlockedLevels = 1, coins = 0, ownedBikes = [0], selectedBikeId = 0,
      gameState = MENU, currentLevel = 1, time = 0, isMuted = False,
      bikeRef = \<lparr>bike_x = 100, bike_y = 0, velocity = 0, angle = 0,
                  angularVelocity = 0, lean = 0\<rparr>,
      inputsRef = noInputs, terrainRef = [], startTimeRef = 0,
      audioPaused = None, localStorage = None\<rparr>"

text \<open>Flat ground at height \<open>g\<close>: a profile with at least one sample, all at \<open>g\<close>.\<close>

definition flat :: "real \<Rightarrow> Point list \<Rightarrow> bool" where
  "flat g terrain \<longleftrightarrow> terrain \<noteq> [] \<and> (\<forall>p \<in> set terrain. pt_y p = g)"

text \<open>The flat profile of \<open>n\<close> uniformly spaced samples at height \<open>g\<close>, a bike at rest
  and a run in progress with a given bike on flat ground of \<open>n\<close> samples: the concrete
  inputs of the examples.\<close>

definition levelGround :: "nat \<Rightarrow> real \<Rightarrow> Point list" where
  "levelGround n g = map (\<lambda>i. \<lparr>pt_x = real i * segmentLength, pt_y = g\<rparr>) [0..<n]"

definition restBike :: BikePhysics where
  "restBike = \<lparr>bike_x = 100, bike_y = 0, velocity = 0, angle = 0, angularVelocity = 0, lean = 0\<rparr>"

definition ride :: "nat \<Rightarrow> BikePhysics \<Rightarrow> App" where
  "ride n bike =
     initialApp\<lparr>gameState := PLAYING, terrainRef := levelGround n 0, bikeRef := bike\<rparr>"

text \<open>A straight slope: \<open>n\<close> uniformly spaced samples whose height is \<open>m\<close> times their
  \<open>x\<close>, and a run in progress with the bike at rest at \<open>x = 100\<close> on the slope of forty
  samples that rises by 5 per unit.\<close>

definition slopeGround :: "nat \<Rightarrow> real \<Rightarrow> Point list" where
  "slopeGround n m =
     map (\<lambda>i. \<lparr>pt_x = real i * segmentLength, pt_y = m * (real i * segmentLength)\<rparr>) [0..<n]"

definition slopeRide :: App where
  "slopeRide =
     initialApp\<lparr>gameState := PLAYING, terrainRef := slopeGround 40 5,
                bikeRef := restBike\<lparr>bike_y := 500\<rparr>\<rparr>"

text \<open>A run in progress on that slope after \<open>k\<close> frames: the angle and the angular
  velocity of the bike are the multiples \<open>c\<close> and \<open>d\<close> of the angle of the slope, and
  the bike has moved and gained speed by no more than \<open>k\<close> frames allow.\<close>

definition onSlope :: "real \<Rightarrow> real \<Rightarrow> real \<Rightarrow> App \<Rightarrow> bool" where
  "onSlope c d k s \<longleftrightarrow>
     gameState s = PLAYING \<and> terrainRef s = slopeGround 40 5 \<and>
     angle (bikeRef s) = c * arctan 5 \<and> angularVelocity (bikeRef s) = d * arctan 5 \<and>
     100 \<le> bike_x (bikeRef s) \<and> bike_x (bikeRef s) \<le> 100 + 3 * k \<and>
     0 \<le> velocity (bikeRef s) \<and> velocity (bikeRef s) \<le> (11 / 50) * k"

text \<open>The velocity of the bike after each of a series of updates. An update throws
  only before it has changed the bike, which then keeps its velocity.\<close>

definition velocities :: "BikePhysics \<Rightarrow> Point list \<Rightarrow> Inputs \<Rightarrow> nat \<Rightarrow> real" where
  "velocities bike terrain inputs n =
     (case physicsTicks n bike terrain inputs of
        Inr bike' \<Rightarrow> velocity bike' | Inl e \<Rightarrow> velocity bike)"

text \<open>The polygonal line through the samples of a profile, written as a sum of
  clamped ramps: the closed form of the sampler on a uniform profile.\<close>

definition polyline :: "Point list \<Rightarrow> real \<Rightarrow> real" where
  "polyline terrain x =
     pt_y (terrain ! 0) +
     (\<Sum>i < length terrain - 1.
        (pt_y (terrain ! Suc i) - pt_y (terrain ! i)) * min 1 (max 0 (x / segmentLength - real i)))"

section \<open>The terrain generator\<close>

lemma terrainLoop_eq:
  "terrainLoop i n seed points =
     points @ map (\<lambda>j. terrainPoint j n seed) [i..n]"
proof (induction i n seed points rule: terrainLoop.induct)
  case (1 i n seed points)
  show ?case
  proof (cases "i \<le> n")
    case True
    then have "[i..n] = i # [i + 1..n]"
      by (simp add: upto_rec1)
    with True 1 show ?thesis
      by (subst terrainLoop.simps) simp
  next
    case False
    then show ?thesis
      by (subst terrainLoop.simps) simp
  qed
qed

lemma generateTerrain_eq:
  "generateTerrain len seed =
     map (\<lambda>j. terrainPoint j \<lceil>len / segmentLength\<rceil> seed) [0..\<lceil>len / segmentLength\<rceil>]"
  by (simp add: generateTerrain_def terrainLoop_eq Let_def)

lemma length_generateTerrain:
  "length (generateTerrain len seed) = nat (\<lceil>len / segmentLength\<rceil> + 1)"
  by (simp add: generateTerrain_eq)

lemma generateTerrain_nth:
  assumes "i < length (generateTerrain len seed)"
  shows "generateTerrain len seed ! i = terrainPoint (int i) \<lceil>len / segmentLength\<rceil> seed"
  using assms by (simp add: generateTerrain_eq)

lemma generateTerrain_uniform: "uniform (generateTerrain len seed)"
  unfolding uniform_def
  by (simp add: generateTerrain_nth terrainPoint_def Let_def)

text \<open>A generated terrain is a profile: uniform, and non-empty when the length is
  not negative.\<close>

lemma generateTerrain_nonempty:
  assumes "0 \<le> len"
  shows "generateTerrain len seed \<noteq> []"
proof -
  have "0 \<le> \<lceil>len / segmentLength\<rceil>"
    using assms by (simp add: segmentLength_def)
  then have "0 < length (generateTerrain len seed)"
    by (simp add: length_generateTerrain)
  then show ?thesis by simp
qed

lemma generateTerrain_profile:
  assumes "0 \<le> len"
  shows "generateTerrain len seed \<noteq> [] \<and> uniform (generateTerrain len seed)"
  using assms by (simp add: generateTerrain_nonempty generateTerrain_uniform)

text \<open>
  Claim C8. Two calls of \<open>generateTerrain\<close> with equal lengths and equal seeds produce
  the same sequence: the same number of samples, with equal \<open>x\<close> and \<open>y\<close> at every
  index. The sequence is a function of the two arguments: sample \<open>i\<close> is computed
  from \<open>i\<close>, the length and the seed, and from nothing that an earlier pass of the
  loop or an earlier call has left.
\<close>

theorem generator_deterministic:
  assumes "len' = len" and "seed' = seed"
  shows "generateTerrain len' seed' = generateTerrain len seed \<and>
         length (generateTerrain len' seed') = length (generateTerrain len seed) \<and>
         (\<forall>i < length (generateTerrain len seed).
            pt_x (generateTerrain len' seed' ! i) = pt_x (generateTerrain len seed ! i) \<and>
            pt_y (generateTerrain len' seed' ! i) = pt_y (generateTerrain len seed ! i)) \<and>
         generateTerrain len seed =
           map (\<lambda>i. terrainPoint i \<lceil>len / segmentLength\<rceil> seed) [0..\<lceil>len / segmentLength\<rceil>]"
  using assms generateTerrain_eq [of len seed] by simp

text \<open>The profile of the first level, its length written in two ways.\<close>

theorem generator_deterministic_witness:
  "(4000 + 1500::real) = 5500 \<and> (777::real) = 777 \<and>
   generateTerrain (4000 + 1500) 777 = generateTerrain 5500 777"
  using generator_deterministic [of "4000 + 1500" 5500 777 777] by simp

section \<open>The terrain sampler\<close>

lemma getTerrainHeight_left:
  "terrain \<noteq> [] \<Longrightarrow> x < 0 \<Longrightarrow> getTerrainHeight x terrain = Inr (pt_y (hd terrain))"
  by (cases terrain) (simp_all add: getTerrainHeight_def elem_at_def)

lemma getTerrainHeight_right:
  "terrain \<noteq> [] \<Longrightarrow> 0 \<le> x \<Longrightarrow> int (length terrain) - 1 \<le> \<lfloor>x / segmentLength\<rfloor> \<Longrightarrow>
   getTerrainHeight x terrain = Inr (pt_y (last terrain))"
  by (simp add: getTerrainHeight_def elem_at_def last_conv_nth nat_diff_distrib')

lemma getTerrainHeight_inner:
  assumes "0 \<le> x" "\<lfloor>x / segmentLength\<rfloor> < int (length terrain) - 1"
  shows "getTerrainHeight x terrain =
     Inr (pt_y (terrain ! nat \<lfloor>x / segmentLength\<rfloor>) +
          (pt_y (terrain ! (nat \<lfloor>x / segmentLength\<rfloor> + 1)) - pt_y (terrain ! nat \<lfloor>x / segmentLength\<rfloor>)) *
          ((x - pt_x (terrain ! nat \<lfloor>x / segmentLength\<rfloor>)) / segmentLength))"
proof -
  have "0 \<le> \<lfloor>x / segmentLength\<rfloor>"
    using assms(1) by (simp add: segmentLength_def)
  with assms show ?thesis
    by (simp add: getTerrainHeight_def elem_at_def Let_def nat_add_distrib not_less)
qed

lemma getTerrainHeight_total:
  "terrain \<noteq> [] \<Longrightarrow> \<exists>h. getTerrainHeight x terrain = Inr h"
  using getTerrainHeight_left [of terrain x] getTerrainHeight_right [of terrain x]
    getTerrainHeight_inner [of x terrain]
  by (cases "x < 0"; cases "\<lfloor>x / segmentLength\<rfloor> < int (length terrain) - 1") auto

lemma getTerrainHeight_Nil: "getTerrainHeight x [] = Inl TypeError"
  by (simp add: getTerrainHeight_def elem_at_def Let_def segmentLength_def)

text \<open>On a uniform profile the sampler is the polygonal line through the samples.\<close>

lemma uniform_nth: "uniform terrain \<Longrightarrow> i < length terrain \<Longrightarrow> pt_x (terrain ! i) = real i * segmentLength"
  by (simp add: uniform_def)

lemma continuous_polyline: "continuous_on UNIV (polyline terrain)"
  unfolding polyline_def by (intro continuous_intros) (simp add: segmentLength_def)

lemma polyline_left:
  assumes "x < 0"
  shows "polyline terrain x = pt_y (terrain ! 0)"
proof -
  have "min 1 (max 0 (x / segmentLength - real i)) = 0" for i
    using assms by (simp add: segmentLength_def max_def)
  then show ?thesis
    by (simp add: polyline_def)
qed

lemma polyline_right:
  assumes "terrain \<noteq> []" "int (length terrain) - 1 \<le> \<lfloor>x / segmentLength\<rfloor>"
  shows "polyline terrain x = pt_y (terrain ! (length terrain - 1))"
proof -
  have "1 \<le> length terrain"
    using assms(1) by (cases terrain) simp_all
  then have "real (length terrain - 1) = real_of_int (int (length terrain) - 1)"
    by simp
  then have le: "real (length terrain - 1) \<le> x / segmentLength"
    using assms(2) by (simp add: le_floor_iff)
  have "min 1 (max 0 (x / segmentLength - real i)) = 1" if "i < length terrain - 1" for i
  proof -
    have "real i + 1 \<le> real (length terrain - 1)"
      using that by (metis Suc_leI of_nat_Suc of_nat_le_iff add.commute)
    with le show ?thesis by (simp add: max_def)
  qed
  then have "polyline terrain x =
      pt_y (terrain ! 0) + (\<Sum>i < length terrain - 1. pt_y (terrain ! Suc i) - pt_y (terrain ! i))"
    by (simp add: polyline_def)
  also have "\<dots> = pt_y (terrain ! (length terrain - 1))"
    using sum_lessThan_telescope [of "\<lambda>i. pt_y (terrain ! i)" "length terrain - 1"] by simp
  finally show ?thesis .
qed

lemma polyline_inner:
  assumes "0 \<le> x" "\<lfloor>x / segmentLength\<rfloor> < int (length terrain) - 1"
  defines "k \<equiv> nat \<lfloor>x / segmentLength\<rfloor>"
  shows "polyline terrain x =
     pt_y (terrain ! k) + (pt_y (terrain ! Suc k) - pt_y (terrain ! k)) * (x / segmentLength - real k)"
proof -
  let ?f = "\<lambda>i. (pt_y (terrain ! Suc i) - pt_y (terrain ! i)) * min 1 (max 0 (x / segmentLength - real i))"
  have fl: "0 \<le> \<lfloor>x / segmentLength\<rfloor>"
    using assms(1) by (simp add: segmentLength_def)
  have k: "k < length terrain - 1"
    using assms(2) fl unfolding k_def by linarith
  have lo: "real k \<le> x / segmentLength"
    using fl unfolding k_def by (metis of_int_floor_le of_nat_nat)
  have hi: "x / segmentLength < real k + 1"
    using fl unfolding k_def by (smt (verit) floor_less_iff of_int_1 of_int_add of_nat_nat of_int_of_nat_eq)
  have below: "?f i = pt_y (terrain ! Suc i) - pt_y (terrain ! i)" if "i < k" for i
  proof -
    have "real i + 1 \<le> real k"
      using that by (metis Suc_leI of_nat_Suc of_nat_le_iff add.commute)
    with lo show ?thesis by (simp add: max_def)
  qed
  have above: "?f i = 0" if "k < i" for i
  proof -
    have "real k + 1 \<le> real i"
      using that by (metis Suc_leI of_nat_Suc of_nat_le_iff add.commute)
    with hi show ?thesis by (simp add: max_def)
  qed
  have at: "?f k = (pt_y (terrain ! Suc k) - pt_y (terrain ! k)) * (x / segmentLength - real k)"
    using lo hi by (simp add: max_def min_def)
  have "sum ?f {..<length terrain - 1} = sum ?f {0..<k} + sum ?f {k..<length terrain - 1}"
    using k sum.atLeastLessThan_concat [of 0 k "length terrain - 1" ?f]
    by (simp add: lessThan_atLeast0)
  also have "sum ?f {k..<length terrain - 1} = ?f k + sum ?f {Suc k..<length terrain - 1}"
    using k by (simp add: sum.atLeast_Suc_lessThan)
  finally have "sum ?f {..<length terrain - 1} =
      sum ?f {..<k} + ?f k + sum ?f {Suc k..<length terrain - 1}"
    by (simp add: lessThan_atLeast0)
  also have "sum ?f {..<k} = (\<Sum>i<k. pt_y (terrain ! Suc i) - pt_y (terrain ! i))"
    by (rule sum.cong) (simp_all add: below)
  also have "\<dots> = pt_y (terrain ! k) - pt_y (terrain ! 0)"
    using sum_lessThan_telescope [of "\<lambda>i. pt_y (terrain ! i)" k] by simp
  also have "sum ?f {Suc k..<length terrain - 1} = 0"
    by (rule sum.neutral) (simp add: above)
  finally show ?thesis
    unfolding polyline_def at by simp
qed

lemma getTerrainHeight_polyline:
  assumes "terrain \<noteq> []" "uniform terrain"
  shows "getTerrainHeight x terrain = Inr (polyline terrain x)"
proof -
  consider "x < 0" | "0 \<le> x" "int (length terrain) - 1 \<le> \<lfloor>x / segmentLength\<rfloor>"
    | "0 \<le> x" "\<lfloor>x / segmentLength\<rfloor> < int (length terrain) - 1"
    by linarith
  then show ?thesis
  proof cases
    case 1
    with assms show ?thesis
      by (simp add: getTerrainHeight_left polyline_left hd_conv_nth)
  next
    case 2
    with assms show ?thesis
      by (simp add: getTerrainHeight_right polyline_right last_conv_nth)
  next
    case 3
    then have "0 \<le> \<lfloor>x / segmentLength\<rfloor>"
      by (simp add: segmentLength_def)
    with 3 have "nat \<lfloor>x / segmentLength\<rfloor> < length terrain"
      by (simp add: nat_less_iff)
    then have "pt_x (terrain ! nat \<lfloor>x / segmentLength\<rfloor>) = real (nat \<lfloor>x / segmentLength\<rfloor>) * segmentLength"
      using assms(2) by (simp add: uniform_nth)
    with 3 show ?thesis
      by (simp add: getTerrainHeight_inner polyline_inner segmentLength_def diff_divide_distrib)
  qed
qed

lemma projr_getTerrainHeight:
  assumes "terrain \<noteq> []" "uniform terrain"
  shows "(\<lambda>x. projr (getTerrainHeight x terrain)) = polyline terrain"
  using assms by (simp add: getTerrainHeight_polyline fun_eq_iff)

lemma continuous_getTerrainHeight:
  assumes "terrain \<noteq> []" "uniform terrain"
  shows "continuous_on UNIV (\<lambda>x. projr (getTerrainHeight x terrain))"
  unfolding projr_getTerrainHeight [OF assms] by (rule continuous_polyline)

lemma left_limit_getTerrainHeight:
  assumes "terrain \<noteq> []" "uniform terrain"
  shows "((\<lambda>x. projr (getTerrainHeight x terrain)) \<longlongrightarrow> projr (getTerrainHeight b terrain))
           (at_left b)"
proof -
  have "((\<lambda>x. projr (getTerrainHeight x terrain)) \<longlongrightarrow> projr (getTerrainHeight b terrain)) (at b)"
    using continuous_getTerrainHeight [OF assms] by (simp add: continuous_on_def)
  then show ?thesis
    by (rule tendsto_mono [OF at_le, rotated]) simp
qed

lemma last_uniform:
  assumes "terrain \<noteq> []" "uniform terrain"
  shows "pt_x (last terrain) = real (length terrain - 1) * segmentLength"
  using assms by (simp add: last_conv_nth uniform_nth)

lemma floor_sample:
  "\<lfloor>real i * segmentLength / segmentLength\<rfloor> = int i"
  by (simp add: segmentLength_def)

lemma getTerrainHeight_sample:
  assumes "uniform terrain" "k < length terrain"
  shows "getTerrainHeight (pt_x (terrain ! k)) terrain = Inr (pt_y (terrain ! k))"
proof -
  let ?x = "real k * segmentLength"
  have x: "pt_x (terrain ! k) = ?x"
    using assms by (simp add: uniform_nth)
  have nonneg: "0 \<le> ?x"
    by (simp add: segmentLength_def)
  show ?thesis
  proof (cases "Suc k < length terrain")
    case True
    then have "\<lfloor>?x / segmentLength\<rfloor> < int (length terrain) - 1"
      unfolding floor_sample by linarith
    from getTerrainHeight_inner [OF nonneg this] show ?thesis
      unfolding floor_sample x by (simp add: x)
  next
    case False
    with assms have k: "k = length terrain - 1" and ne: "terrain \<noteq> []"
      by auto
    then have "int (length terrain) - 1 \<le> \<lfloor>?x / segmentLength\<rfloor>"
      unfolding floor_sample by linarith
    from getTerrainHeight_right [OF ne nonneg this] show ?thesis
      unfolding x using k ne by (simp add: last_conv_nth)
  qed
qed

text \<open>
  Claim C7. On a non-empty terrain profile (samples spaced by the segment length from
  \<open>x = 0\<close>), \<open>getTerrainHeight\<close> returns the first sample's height for every \<open>x < 0\<close>,
  the last sample's height for every \<open>x\<close> at or beyond the last sample, and otherwise
  the linear interpolation between the two ends of the segment that encloses \<open>x\<close>, by
  the fraction of the segment that \<open>x\<close> has covered. At every sample the height is the
  sample's and equals the limit of the height from the left; the height is a
  continuous function of \<open>x\<close>.
\<close>

theorem sampler_contract:
  assumes "terrain \<noteq> []" and "uniform terrain"
  shows "(x < 0 \<longrightarrow> getTerrainHeight x terrain = Inr (pt_y (hd terrain))) \<and>
         (pt_x (last terrain) \<le> x \<longrightarrow> getTerrainHeight x terrain = Inr (pt_y (last terrain))) \<and>
         (0 \<le> x \<and> x < pt_x (last terrain) \<longrightarrow>
            (let i = nat \<lfloor>x / segmentLength\<rfloor>; p1 = terrain ! i; p2 = terrain ! Suc i
             in Suc i < length terrain \<and> pt_x p1 \<le> x \<and> x < pt_x p2 \<and>
                getTerrainHeight x terrain =
                  Inr (pt_y p1 + (pt_y p2 - pt_y p1) * ((x - pt_x p1) / (pt_x p2 - pt_x p1))))) \<and>
         (k < length terrain \<longrightarrow>
            getTerrainHeight (pt_x (terrain ! k)) terrain = Inr (pt_y (terrain ! k)) \<and>
            ((\<lambda>x. projr (getTerrainHeight x terrain)) \<longlongrightarrow> pt_y (terrain ! k))
              (at_left (pt_x (terrain ! k)))) \<and>
         continuous_on UNIV (\<lambda>x. projr (getTerrainHeight x terrain))"
proof (intro conjI impI)
  show "getTerrainHeight x terrain = Inr (pt_y (hd terrain))" if "x < 0"
    using assms(1) that by (rule getTerrainHeight_left)
next
  assume "pt_x (last terrain) \<le> x"
  then have le: "real (length terrain - 1) * segmentLength \<le> x"
    by (simp add: last_uniform [OF assms])
  then have "0 \<le> x"
    by (smt (verit) segmentLength_def mult_nonneg_nonneg of_nat_0_le_iff)
  moreover have "real (length terrain - 1) \<le> x / segmentLength"
    using le by (simp add: segmentLength_def)
  then have "int (length terrain) - 1 \<le> \<lfloor>x / segmentLength\<rfloor>"
    by (simp add: le_floor_iff)
  ultimately show "getTerrainHeight x terrain = Inr (pt_y (last terrain))"
    using assms(1) by (simp add: getTerrainHeight_right)
next
  assume x: "0 \<le> x \<and> x < pt_x (last terrain)"
  define i where "i = nat \<lfloor>x / segmentLength\<rfloor>"
  have fl: "0 \<le> \<lfloor>x / segmentLength\<rfloor>"
    using x by (simp add: segmentLength_def)
  have "x / segmentLength < real (length terrain - 1)"
    using x by (simp add: last_uniform [OF assms] segmentLength_def)
  then have "\<lfloor>x / segmentLength\<rfloor> < int (length terrain - 1)"
    by (simp add: floor_less_iff)
  then have less: "\<lfloor>x / segmentLength\<rfloor> < int (length terrain) - 1"
    using assms(1) by (cases terrain) simp_all
  with fl have i: "Suc i < length terrain"
    unfolding i_def by linarith
  have lo: "real i \<le> x / segmentLength"
    using fl unfolding i_def by (metis of_int_floor_le of_nat_nat)
  have hi: "x / segmentLength < real i + 1"
    using fl unfolding i_def
    by (smt (verit) floor_less_iff of_int_1 of_int_add of_nat_nat of_int_of_nat_eq)
  have x1: "pt_x (terrain ! i) = real i * segmentLength"
    and x2: "pt_x (terrain ! Suc i) = (real i + 1) * segmentLength"
    using i assms(2) by (simp_all add: uniform_nth)
  have "getTerrainHeight x terrain =
     Inr (pt_y (terrain ! i) + (pt_y (terrain ! Suc i) - pt_y (terrain ! i)) *
          ((x - pt_x (terrain ! i)) / (pt_x (terrain ! Suc i) - pt_x (terrain ! i))))"
    using x less by (simp add: getTerrainHeight_inner i_def [symmetric] x1 x2 algebra_simps)
  moreover have "pt_x (terrain ! i) \<le> x" "x < pt_x (terrain ! Suc i)"
    using lo hi by (simp_all add: x1 x2 segmentLength_def)
  ultimately show "let i = nat \<lfloor>x / segmentLength\<rfloor>; p1 = terrain ! i; p2 = terrain ! Suc i
             in Suc i < length terrain \<and> pt_x p1 \<le> x \<and> x < pt_x p2 \<and>
                getTerrainHeight x terrain =
                  Inr (pt_y p1 + (pt_y p2 - pt_y p1) * ((x - pt_x p1) / (pt_x p2 - pt_x p1)))"
    using i by (simp add: Let_def i_def [symmetric])
next
  assume k: "k < length terrain"
  then show eq: "getTerrainHeight (pt_x (terrain ! k)) terrain = Inr (pt_y (terrain ! k))"
    using assms(2) by (simp add: getTerrainHeight_sample)
  show "((\<lambda>x. projr (getTerrainHeight x terrain)) \<longlongrightarrow> pt_y (terrain ! k))
              (at_left (pt_x (terrain ! k)))"
    using left_limit_getTerrainHeight [OF assms, of "pt_x (terrain ! k)"] by (simp add: eq)
next
  show "continuous_on UNIV (\<lambda>x. projr (getTerrainHeight x terrain))"
    using assms by (rule continuous_getTerrainHeight)
qed

text \<open>The contract on a profile of three samples: left of it, beyond it, in the middle
  of its second segment and at the boundary between its segments.\<close>

theorem sampler_contract_witness:
  "[\<lparr>pt_x = 0, pt_y = 1\<rparr>, \<lparr>pt_x = 50, pt_y = 3\<rparr>, \<lparr>pt_x = 100, pt_y = 2\<rparr>] \<noteq> [] \<and>
   uniform [\<lparr>pt_x = 0, pt_y = 1\<rparr>, \<lparr>pt_x = 50, pt_y = 3\<rparr>, \<lparr>pt_x = 100, pt_y = 2\<rparr>] \<and>
   getTerrainHeight (- 1) [\<lparr>pt_x = 0, pt_y = 1\<rparr>, \<lparr>pt_x = 50, pt_y = 3\<rparr>, \<lparr>pt_x = 100, pt_y = 2\<rparr>]
     = Inr 1 \<and>
   getTerrainHeight 120 [\<lparr>pt_x = 0, pt_y = 1\<rparr>, \<lparr>pt_x = 50, pt_y = 3\<rparr>, \<lparr>pt_x = 100, pt_y = 2\<rparr>]
     = Inr 2 \<and>
   getTerrainHeight 75 [\<lparr>pt_x = 0, pt_y = 1\<rparr>, \<lparr>pt_x = 50, pt_y = 3\<rparr>, \<lparr>pt_x = 100, pt_y = 2\<rparr>]
     = Inr (5 / 2) \<and>
   ((\<lambda>x. projr (getTerrainHeight x
       [\<lparr>pt_x = 0, pt_y = 1\<rparr>, \<lparr>pt_x = 50, pt_y = 3\<rparr>, \<lparr>pt_x = 100, pt_y = 2\<rparr>]))
     \<longlongrightarrow> 3) (at_left 50)"
proof -
  let ?t = "[\<lparr>pt_x = 0, pt_y = 1\<rparr>, \<lparr>pt_x = 50, pt_y = 3\<rparr>, \<lparr>pt_x = 100, pt_y = 2\<rparr>]"
  have ne: "?t \<noteq> []" by simp
  have u: "uniform ?t"
    by (simp add: uniform_def segmentLength_def less_Suc_eq numeral_3_eq_3)
  from sampler_contract [OF ne u, of "- 1" 0] sampler_contract [OF ne u, of 120 0]
    sampler_contract [OF ne u, of 75 1]
  show ?thesis
    using ne u by (simp add: Let_def segmentLength_def)
qed

text \<open>
  Claim C10. On a non-empty profile every array read of \<open>getTerrainHeight\<close> is within
  bounds, for every \<open>x\<close>, and the function returns a number; on the empty profile
  its first read is out of bounds and the function throws.
\<close>

theorem sampler_total:
  "(terrain \<noteq> [] \<longrightarrow> (\<exists>h. getTerrainHeight x terrain = Inr h)) \<and>
   getTerrainHeight x [] = Inl TypeError"
  by (simp add: getTerrainHeight_total getTerrainHeight_Nil)

text \<open>A profile of one sample, and the empty profile.\<close>

theorem sampler_total_witness:
  "[\<lparr>pt_x = 0, pt_y = 7\<rparr>] \<noteq> [] \<and> (\<exists>h. getTerrainHeight 30 [\<lparr>pt_x = 0, pt_y = 7\<rparr>] = Inr h) \<and>
   getTerrainHeight 30 [] = Inl TypeError"
  using sampler_total [of "[\<lparr>pt_x = 0, pt_y = 7\<rparr>]" 30] by simp

section \<open>The update of the bike\<close>

lemma physicsUpdate_total:
  assumes "terrain \<noteq> []"
  shows "\<exists>bike'. physicsUpdate bike terrain inputs = Inr bike'"
proof -
  obtain r where r: "getTerrainHeight (bike_x bike) terrain = Inr r"
    using getTerrainHeight_total [OF assms] by blast
  obtain f where f: "getTerrainHeight (bike_x bike + cos (angle bike) * WHEEL_BASE) terrain = Inr f"
    using getTerrainHeight_total [OF assms] by blast
  show ?thesis
    by (simp add: physicsUpdate_def r f Let_def)
qed

lemma physicsUpdate_velocity:
  assumes "physicsUpdate bike terrain inputs = Inr bike'"
  shows "- MAX_SPEED \<le> velocity bike' \<and>
         velocity bike' \<le> (if nitro inputs then MAX_NITRO_SPEED else MAX_SPEED)"
proof -
  from assms obtain r f where "getTerrainHeight (bike_x bike) terrain = Inr r"
    and "getTerrainHeight (bike_x bike + cos (angle bike) * WHEEL_BASE) terrain = Inr f"
    by (auto simp add: physicsUpdate_def Let_def split: sum.splits)
  with assms have "velocity bike' =
      (let v = velocity bike + sin (angle bike) * GRAVITY;
           v = (if throttle inputs then v + ACCELERATION else v);
           currentMaxSpeed = (if nitro inputs then MAX_NITRO_SPEED else MAX_SPEED);
           v = (if nitro inputs then v + NITRO_ACCELERATION else v);
           v = (if brake inputs then v - BRAKE_FORCE else v);
           v = v * FRICTION;
           v = (if currentMaxSpeed < v then currentMaxSpeed else v)
       in (if v < - MAX_SPEED then - MAX_SPEED else v))"
    by (auto simp add: physicsUpdate_def Let_def)
  then show ?thesis
    by (simp add: Let_def MAX_SPEED_def MAX_NITRO_SPEED_def)
qed

lemma physicsUpdate_angle:
  assumes "getTerrainHeight (bike_x bike) terrain = Inr g"
    and "getTerrainHeight (bike_x bike + cos (angle bike) * WHEEL_BASE) terrain = Inr h"
  shows "\<exists>bike'. physicsUpdate bike terrain inputs = Inr bike' \<and>
     angle bike' = angle bike +
       (let d = atan2 (h - g) (cos (angle bike) * WHEEL_BASE) - angle bike;
            w = (if nitro inputs \<and> 10 < \<bar>bike_y bike - g\<bar>
                 then angularVelocity bike - 0.02 else angularVelocity bike);
            w = w + d * (if nitro inputs then 0.05 else 0.15);
            f = (if 0.5 < \<bar>d\<bar> then ROTATION_SPEED * AIR_ROTATION_BOOST else ROTATION_SPEED);
            w = (if left inputs then w - f else w);
            w = (if right inputs then w + f else w)
        in w * ANGULAR_DAMPING)"
  unfolding physicsUpdate_def Let_def assms by simp

text \<open>On flat ground both wheels stand at the same height, so the target angle is 0
  for an upright bike and \<open>\<pi>\<close> for an inverted one.\<close>

lemma flat_getTerrainHeight:
  assumes "flat g terrain"
  shows "getTerrainHeight x terrain = Inr g"
proof -
  have ne: "terrain \<noteq> []" and y: "\<And>i. i < length terrain \<Longrightarrow> pt_y (terrain ! i) = g"
    using assms by (simp_all add: flat_def)
  consider "x < 0" | "0 \<le> x" "int (length terrain) - 1 \<le> \<lfloor>x / segmentLength\<rfloor>"
    | "0 \<le> x" "\<lfloor>x / segmentLength\<rfloor> < int (length terrain) - 1"
    by linarith
  then show ?thesis
  proof cases
    case 1
    with ne show ?thesis
      by (simp add: getTerrainHeight_left hd_conv_nth y)
  next
    case 2
    with ne show ?thesis
      by (simp add: getTerrainHeight_right last_conv_nth y)
  next
    case 3
    then have "0 \<le> \<lfloor>x / segmentLength\<rfloor>"
      by (simp add: segmentLength_def)
    with 3 have "nat \<lfloor>x / segmentLength\<rfloor> + 1 < length terrain"
      by linarith
    with 3 show ?thesis
      by (simp add: getTerrainHeight_inner y)
  qed
qed

lemma flat_levelGround: "0 < n \<Longrightarrow> flat g (levelGround n g)"
  by (auto simp add: flat_def levelGround_def)

lemma levelGround_simps:
  "length (levelGround n g) = n"
  "i < n \<Longrightarrow> pt_x (levelGround n g ! i) = real i * segmentLength"
  by (simp_all add: levelGround_def)

lemma ride_simps:
  "gameState (ride n bike) = PLAYING" "bikeRef (ride n bike) = bike"
  "terrainRef (ride n bike) = levelGround n 0" "inputsRef (ride n bike) = noInputs"
  by (simp_all add: ride_def initialApp_def)

lemma physicsUpdate_level:
  assumes "flat g terrain" and "angle bike = 0"
  shows "physicsUpdate bike terrain inputs =
     Inr (let v = velocity bike;
              v = (if throttle inputs then v + ACCELERATION else v);
              v = (if nitro inputs then v + NITRO_ACCELERATION else v);
              v = (if brake inputs then v - BRAKE_FORCE else v);
              v = v * FRICTION;
              v = (if (if nitro inputs then MAX_NITRO_SPEED else MAX_SPEED) < v
                   then (if nitro inputs then MAX_NITRO_SPEED else MAX_SPEED) else v);
              v = (if v < - MAX_SPEED then - MAX_SPEED else v);
              w = (if nitro inputs \<and> 10 < \<bar>bike_y bike - g\<bar>
                   then angularVelocity bike - 0.02 else angularVelocity bike);
              w = (if left inputs then w - ROTATION_SPEED else w);
              w = (if right inputs then w + ROTATION_SPEED else w);
              w = w * ANGULAR_DAMPING
          in bike\<lparr>bike_x := bike_x bike + v, bike_y := g, velocity := v,
                   angularVelocity := w, angle := w\<rparr>)"
  using assms
  by (simp add: physicsUpdate_def flat_getTerrainHeight Let_def atan2_def WHEEL_BASE_def)

lemma physicsUpdate_inverted_level:
  assumes "flat g terrain" and "angle bike = pi"
  shows "physicsUpdate bike terrain inputs =
     Inr (let v = velocity bike;
              v = (if throttle inputs then v + ACCELERATION else v);
              v = (if nitro inputs then v + NITRO_ACCELERATION else v);
              v = (if brake inputs then v - BRAKE_FORCE else v);
              v = v * FRICTION;
              v = (if (if nitro inputs then MAX_NITRO_SPEED else MAX_SPEED) < v
                   then (if nitro inputs then MAX_NITRO_SPEED else MAX_SPEED) else v);
              v = (if v < - MAX_SPEED then - MAX_SPEED else v);
              w = (if nitro inputs \<and> 10 < \<bar>bike_y bike - g\<bar>
                   then angularVelocity bike - 0.02 else angularVelocity bike);
              w = (if left inputs then w - ROTATION_SPEED else w);
              w = (if right inputs then w + ROTATION_SPEED else w);
              w = w * ANGULAR_DAMPING
          in bike\<lparr>bike_x := bike_x bike - v, bike_y := g, velocity := v,
                   angularVelocity := w, angle := pi + w\<rparr>)"
  using assms
  by (simp add: physicsUpdate_def flat_getTerrainHeight Let_def atan2_def WHEEL_BASE_def)

lemma physicsUpdate_ride_rest:
  "physicsUpdate (bikeRef (ride 20 restBike)) (terrainRef (ride 20 restBike)) (inputsRef (ride 20 restBike))
     = Inr restBike"
  by (simp add: ride_def initialApp_def physicsUpdate_level [of 0] flat_levelGround
      noInputs_def restBike_def Let_def constants)

lemma physicsUpdate_ride_inverted:
  "0 < n \<Longrightarrow> physicsUpdate (restBike\<lparr>angle := pi\<rparr>) (levelGround n 0) noInputs
     = Inr (restBike\<lparr>angle := pi\<rparr>)"
  by (simp add: physicsUpdate_inverted_level [of 0] flat_levelGround noInputs_def
      restBike_def Let_def constants)

lemma physicsUpdate_ride_backward:
  "0 < n \<Longrightarrow> physicsUpdate (restBike\<lparr>angularVelocity := - (55 / 92) * pi\<rparr>) (levelGround n 0) noInputs
     = Inr (restBike\<lparr>angularVelocity := - (11 / 20) * pi, angle := - (11 / 20) * pi\<rparr>)"
  by (simp add: physicsUpdate_level [of 0] flat_levelGround noInputs_def
      restBike_def Let_def constants)

lemma physicsUpdate_ride_spin_inverted:
  "0 < n \<Longrightarrow> physicsUpdate (restBike\<lparr>angle := pi, angularVelocity := 5 / 2\<rparr>) (levelGround n 0) noInputs
     = Inr (restBike\<lparr>angle := pi + 23 / 10, angularVelocity := 23 / 10\<rparr>)"
  by (simp add: physicsUpdate_inverted_level [of 0] flat_levelGround noInputs_def
      restBike_def Let_def constants)

lemma physicsUpdate_ride_spin:
  "0 < n \<Longrightarrow> physicsUpdate (restBike\<lparr>angularVelocity := 3\<rparr>) (levelGround n 0) noInputs
     = Inr (restBike\<lparr>angle := 69 / 25, angularVelocity := 69 / 25\<rparr>)"
  by (simp add: physicsUpdate_level [of 0] flat_levelGround noInputs_def
      restBike_def Let_def constants)

section \<open>One frame of the game loop\<close>

lemma gameLoop_not_playing: "gameState s \<noteq> PLAYING \<Longrightarrow> gameLoop now s = Inr s"
  by (simp add: gameLoop_def)

lemma gameLoop_bike:
  assumes "gameState s = PLAYING"
    and "physicsUpdate (bikeRef s) (terrainRef s) (inputsRef s) = Inr bike"
  shows "bikeRef (stateAfter (gameLoop now s)) = bike"
  using assms
  by (simp add: gameLoop_def stateAfter_def Let_def saveData_def split: option.splits)

lemma gameLoop_terrain: "terrainRef (stateAfter (gameLoop now s)) = terrainRef s"
  by (simp add: gameLoop_def stateAfter_def Let_def saveData_def split: sum.splits option.splits)

lemma gameLoop_no_win:
  assumes "gameState s = PLAYING"
    and "physicsUpdate (bikeRef s) (terrainRef s) (inputsRef s) = Inr bike"
    and "length (terrainRef s) < 20 \<or>
         bike_x bike < pt_x (terrainRef s ! (length (terrainRef s) - 20))"
  shows "gameState (stateAfter (gameLoop now s)) =
           (if headCollision (angle bike) then CRASHED else PLAYING)"
proof (cases "length (terrainRef s) < 20")
  case True
  then have "elem_at (terrainRef s) (int (length (terrainRef s)) - 20) = None"
    by (simp add: elem_at_def)
  with assms(1,2) show ?thesis
    by (cases "headCollision (angle bike)") (simp_all add: gameLoop_def stateAfter_def Let_def)
next
  case False
  then have "elem_at (terrainRef s) (int (length (terrainRef s)) - 20)
          = Some (terrainRef s ! (length (terrainRef s) - 20))"
    by (simp add: elem_at_def nat_diff_distrib')
  moreover from False assms(3)
  have "\<not> pt_x (terrainRef s ! (length (terrainRef s) - 20)) \<le> bike_x bike"
    by simp
  ultimately show ?thesis
    using assms(1,2)
    by (cases "headCollision (angle bike)") (simp_all add: gameLoop_def stateAfter_def Let_def)
qed

lemma gameLoop_no_crash:
  assumes "gameState s = PLAYING"
    and "physicsUpdate (bikeRef s) (terrainRef s) (inputsRef s) = Inr bike"
    and "\<not> headCollision (angle bike)"
  shows "gameState (stateAfter (gameLoop now s)) = PLAYING \<or>
         gameState (stateAfter (gameLoop now s)) = WON"
  using assms
  by (simp add: gameLoop_def stateAfter_def Let_def saveData_def split: option.splits)

lemma gameLoop_win:
  assumes "gameState s = PLAYING"
    and "physicsUpdate (bikeRef s) (terrainRef s) (inputsRef s) = Inr bike"
    and "20 \<le> length (terrainRef s)"
    and "pt_x (terrainRef s ! (length (terrainRef s) - 20)) \<le> bike_x bike"
  shows "gameState (stateAfter (gameLoop now s)) = WON"
proof -
  have "elem_at (terrainRef s) (int (length (terrainRef s)) - 20)
          = Some (terrainRef s ! (length (terrainRef s) - 20))"
    using assms(3) by (simp add: elem_at_def nat_diff_distrib')
  with assms show ?thesis
    by (simp add: gameLoop_def stateAfter_def Let_def saveData_def)
qed

text \<open>
  Claim C2. After one update of the bike, from any pose, on any non-empty terrain and
  with any flags, the velocity lies between \<open>- MAX_SPEED\<close> and the current maximum
  speed, which is \<open>MAX_NITRO_SPEED\<close> when the nitro flag is held and \<open>MAX_SPEED\<close>
  otherwise; the update does return, and the bound holds for the bike that a frame of a
  run in progress leaves.
\<close>

theorem speed_clamp:
  "(terrain \<noteq> [] \<longrightarrow>
      (\<exists>bike'. physicsUpdate bike terrain inputs = Inr bike' \<and>
         - MAX_SPEED \<le> velocity bike' \<and>
         velocity bike' \<le> (if nitro inputs then MAX_NITRO_SPEED else MAX_SPEED))) \<and>
   (gameState s = PLAYING \<and> terrainRef s \<noteq> [] \<longrightarrow>
      - MAX_SPEED \<le> velocity (bikeRef (stateAfter (gameLoop now s))) \<and>
      velocity (bikeRef (stateAfter (gameLoop now s)))
        \<le> (if nitro (inputsRef s) then MAX_NITRO_SPEED else MAX_SPEED))"
proof (intro conjI impI)
  assume "terrain \<noteq> []"
  then show "\<exists>bike'. physicsUpdate bike terrain inputs = Inr bike' \<and>
         - MAX_SPEED \<le> velocity bike' \<and>
         velocity bike' \<le> (if nitro inputs then MAX_NITRO_SPEED else MAX_SPEED)"
    using physicsUpdate_total physicsUpdate_velocity by blast
next
  assume a: "gameState s = PLAYING \<and> terrainRef s \<noteq> []"
  then obtain b where b: "physicsUpdate (bikeRef s) (terrainRef s) (inputsRef s) = Inr b"
    using physicsUpdate_total by blast
  with a have eq: "bikeRef (stateAfter (gameLoop now s)) = b"
    by (simp add: gameLoop_bike)
  show "- MAX_SPEED \<le> velocity (bikeRef (stateAfter (gameLoop now s)))"
    and "velocity (bikeRef (stateAfter (gameLoop now s)))
        \<le> (if nitro (inputsRef s) then MAX_NITRO_SPEED else MAX_SPEED)"
    unfolding eq using physicsUpdate_velocity [OF b] by simp_all
qed

text \<open>The bike at rest on flat ground, with the nitro flag for the update alone and
  without it for the frame.\<close>

theorem speed_clamp_witness:
  "levelGround 20 0 \<noteq> [] \<and>
   (\<exists>bike'. physicsUpdate restBike (levelGround 20 0) (noInputs\<lparr>nitro := True\<rparr>) = Inr bike' \<and>
      - MAX_SPEED \<le> velocity bike' \<and> velocity bike' \<le> MAX_NITRO_SPEED) \<and>
   gameState (ride 20 restBike) = PLAYING \<and> terrainRef (ride 20 restBike) \<noteq> [] \<and>
   - MAX_SPEED \<le> velocity (bikeRef (stateAfter (gameLoop 0 (ride 20 restBike)))) \<and>
   velocity (bikeRef (stateAfter (gameLoop 0 (ride 20 restBike)))) \<le> MAX_SPEED"
proof -
  have ne: "levelGround 20 0 \<noteq> []"
    by (simp add: levelGround_def)
  have p: "gameState (ride 20 restBike) = PLAYING" "terrainRef (ride 20 restBike) \<noteq> []"
    "\<not> nitro (inputsRef (ride 20 restBike))"
    using ne by (simp_all add: ride_def initialApp_def noInputs_def)
  from speed_clamp [of "levelGround 20 0" restBike "noInputs\<lparr>nitro := True\<rparr>" "ride 20 restBike" 0]
  show ?thesis
    using ne p by (simp add: noInputs_def)
qed

text \<open>
  Claim C3. When a frame of a run in progress finds the updated bike at or beyond the
  finish line, the \<open>x\<close> of the twentieth sample from the end, the frame returns with
  the game won, the coins raised by \<open>50 + 25 * currentLevel\<close> and the number of
  unlocked levels raised to the maximum of its value and \<open>currentLevel + 1\<close>, and the
  same values saved.
\<close>

theorem win_postcondition:
  assumes "gameState s = PLAYING"
    and "physicsUpdate (bikeRef s) (terrainRef s) (inputsRef s) = Inr bike"
    and "20 \<le> length (terrainRef s)"
    and "pt_x (terrainRef s ! (length (terrainRef s) - 20)) \<le> bike_x bike"
  shows "\<exists>s'. gameLoop now s = Inr s' \<and>
           gameState s' = WON \<and>
           coins s' = coins s + (50 + 25 * currentLevel s) \<and>
           unlockedLevels s' = max (unlockedLevels s) (currentLevel s + 1) \<and>
           localStorage s' =
             Some \<lparr>saved_unlockedLevels = max (unlockedLevels s) (currentLevel s + 1),
                   saved_coins = coins s + (50 + 25 * currentLevel s),
                   saved_ownedBikes = ownedBikes s,
                   saved_selectedBikeId = selectedBikeId s\<rparr>"
proof -
  have "elem_at (terrainRef s) (int (length (terrainRef s)) - 20)
          = Some (terrainRef s ! (length (terrainRef s) - 20))"
    using assms(3) by (simp add: elem_at_def nat_diff_distrib')
  with assms show ?thesis
    by (simp add: gameLoop_def Let_def saveData_def)
qed

text \<open>On a profile of twenty samples the finish line is the first sample, and the bike
  at \<open>x = 100\<close> is beyond it: the first level pays 75 coins and unlocks the second.\<close>

theorem win_postcondition_witness:
  "gameState (ride 20 restBike) = PLAYING \<and>
   physicsUpdate (bikeRef (ride 20 restBike)) (terrainRef (ride 20 restBike)) (inputsRef (ride 20 restBike))
     = Inr restBike \<and>
   20 \<le> length (terrainRef (ride 20 restBike)) \<and>
   pt_x (terrainRef (ride 20 restBike) ! (length (terrainRef (ride 20 restBike)) - 20)) \<le> bike_x restBike \<and>
   (\<exists>s'. gameLoop 0 (ride 20 restBike) = Inr s' \<and> gameState s' = WON \<and> coins s' = 75 \<and>
         unlockedLevels s' = 2)"
proof -
  have p: "gameState (ride 20 restBike) = PLAYING" "20 \<le> length (terrainRef (ride 20 restBike))"
    "pt_x (terrainRef (ride 20 restBike) ! (length (terrainRef (ride 20 restBike)) - 20)) \<le> bike_x restBike"
    by (simp_all add: ride_def initialApp_def levelGround_def restBike_def)
  have c: "coins (ride 20 restBike) = 0" "currentLevel (ride 20 restBike) = 1" "unlockedLevels (ride 20 restBike) = 1"
    by (simp_all add: ride_def initialApp_def)
  from win_postcondition [OF p(1) physicsUpdate_ride_rest p(2) p(3), of 0]
  show ?thesis
    using p physicsUpdate_ride_rest by (auto simp add: c)
qed

section \<open>Outcomes of a run\<close>

lemma frames_not_playing:
  "gameState s \<noteq> PLAYING \<Longrightarrow> \<exists>inputs. frames fs s = Inr (s\<lparr>inputsRef := inputs\<rparr>)"
proof (induction fs arbitrary: s)
  case Nil
  have "s = s\<lparr>inputsRef := inputsRef s\<rparr>" by simp
  then show ?case by (metis frames.simps(1))
next
  case (Cons f fs)
  obtain now inputs where f: "f = (now, inputs)" by (cases f)
  have "gameState (s\<lparr>inputsRef := inputs\<rparr>) \<noteq> PLAYING"
    using Cons.prems by simp
  from Cons.IH [OF this] gameLoop_not_playing [OF this, of now] show ?case
    by (auto simp add: f)
qed

text \<open>
  Claim C4. Once the game is crashed or won, a frame changes nothing, and any number
  of frames leave the bike, the outcome and everything else but the input flags as
  they are.
\<close>

theorem terminal_outcome:
  assumes "gameState s = CRASHED \<or> gameState s = WON"
  shows "gameLoop now s = Inr s \<and> (\<exists>inputs. frames fs s = Inr (s\<lparr>inputsRef := inputs\<rparr>))"
  using assms gameLoop_not_playing [of s now] frames_not_playing [of s fs] by auto

text \<open>Two frames after a crash, the throttle held in the first.\<close>

theorem terminal_outcome_witness:
  "gameState (initialApp\<lparr>gameState := CRASHED\<rparr>) = CRASHED \<and>
   gameLoop 5 (initialApp\<lparr>gameState := CRASHED\<rparr>) = Inr (initialApp\<lparr>gameState := CRASHED\<rparr>) \<and>
   (\<exists>inputs. frames [(5, noInputs\<lparr>throttle := True\<rparr>), (6, noInputs)]
                (initialApp\<lparr>gameState := CRASHED\<rparr>)
              = Inr (initialApp\<lparr>gameState := CRASHED, inputsRef := inputs\<rparr>))"
  using terminal_outcome [of "initialApp\<lparr>gameState := CRASHED\<rparr>" 5
      "[(5, noInputs\<lparr>throttle := True\<rparr>), (6, noInputs)]"]
  by simp

text \<open>
  Claim C6. \<open>startLevel\<close> with a level beyond the unlocked ones returns the state
  unchanged: the game state, the bike, the terrain, the timer, the current level and
  the saved values.
\<close>

theorem level_gate:
  assumes "unlockedLevels s < levelId"
  shows "startLevel levelId now s = Inr s"
  using assms by (simp add: startLevel_def)

text \<open>The second level, asked for when only the first is unlocked.\<close>

theorem level_gate_witness:
  "unlockedLevels initialApp < 2 \<and> startLevel 2 0 initialApp = Inr initialApp"
  using level_gate [of initialApp 2 0] by (simp add: initialApp_def)

text \<open>An unlocked level starts a run: the profile of the level, and the bike upright
  and at rest on the ground at \<open>x = 100\<close>.\<close>

lemma startLevel_unlocked:
  assumes "0 \<le> levelId" and "levelId \<le> unlockedLevels s"
  shows "\<exists>s'. startLevel levelId now s = Inr s' \<and> gameState s' = PLAYING \<and>
           currentLevel s' = levelId \<and>
           terrainRef s' = generateTerrain (real_of_int (4000 + levelId * 1500))
                             (real_of_int (levelId * 777)) \<and>
           bike_x (bikeRef s') = 100 \<and> velocity (bikeRef s') = 0 \<and>
           angle (bikeRef s') = 0 \<and> angularVelocity (bikeRef s') = 0 \<and>
           getTerrainHeight 100 (terrainRef s') = Inr (bike_y (bikeRef s'))"
proof -
  let ?t = "generateTerrain (real_of_int (4000 + levelId * 1500)) (real_of_int (levelId * 777))"
  have "0 \<le> real_of_int (4000 + levelId * 1500)"
    using assms(1) by simp
  then have "?t \<noteq> []"
    by (rule generateTerrain_nonempty)
  then obtain h where "getTerrainHeight 100 ?t = Inr h"
    using getTerrainHeight_total by blast
  with assms(2) show ?thesis
    by (simp add: startLevel_def Let_def)
qed

section \<open>The throttle on flat ground\<close>

lemma throttle_step:
  assumes "flat g terrain" and "angle bike = 0" and "angularVelocity bike = 0"
    and "0 \<le> velocity bike" and "velocity bike < 6"
  shows "physicsUpdate bike terrain (noInputs\<lparr>throttle := True\<rparr>) =
     Inr (bike\<lparr>bike_x := bike_x bike + (velocity bike + ACCELERATION) * FRICTION, bike_y := g,
              velocity := (velocity bike + ACCELERATION) * FRICTION,
              angularVelocity := 0, angle := 0\<rparr>)"
  using assms
  by (simp add: physicsUpdate_level noInputs_def Let_def constants)

lemma throttle_ticks:
  assumes "flat g terrain" and "angle bike = 0" and "angularVelocity bike = 0"
    and "velocity bike = 0"
  shows "\<exists>bike'. physicsTicks n bike terrain (noInputs\<lparr>throttle := True\<rparr>) = Inr bike' \<and>
           angle bike' = 0 \<and> angularVelocity bike' = 0 \<and>
           velocity bike' = 6 * (1 - FRICTION ^ n)"
proof (induction n)
  case 0
  with assms show ?case by simp
next
  case (Suc n)
  then obtain b where b: "physicsTicks n bike terrain (noInputs\<lparr>throttle := True\<rparr>) = Inr b"
    and a: "angle b = 0" and w: "angularVelocity b = 0"
    and v: "velocity b = 6 * (1 - FRICTION ^ n)"
    by blast
  have "0 \<le> velocity b" "velocity b < 6"
    unfolding v by (simp_all add: FRICTION_def power_le_one)
  from throttle_step [OF assms(1) a w this] show ?case
    by (simp add: b v FRICTION_def ACCELERATION_def algebra_simps)
qed

lemma throttle_velocities:
  assumes "flat g terrain" and "angle bike = 0" and "angularVelocity bike = 0"
    and "velocity bike = 0"
  shows "velocities bike terrain (noInputs\<lparr>throttle := True\<rparr>) n = 6 * (1 - FRICTION ^ n)"
  using throttle_ticks [OF assms, of n] by (auto simp add: velocities_def)

lemma throttle_limit: "(\<lambda>n. 6 * (1 - FRICTION ^ n)) \<longlonglongrightarrow> 6"
proof -
  have "(\<lambda>n. 6 * (1 - FRICTION ^ n)) \<longlonglongrightarrow> 6 * (1 - 0)"
    by (intro tendsto_intros) (simp add: FRICTION_def)
  then show ?thesis by simp
qed

text \<open>
  Claim C5, as the program behaves. From rest on flat ground with only the throttle
  held, every update returns, the velocities never decrease from one update to the
  next and converge to \<open>ACCELERATION * FRICTION / (1 - FRICTION)\<close>, which is 6 and lies
  below \<open>MAX_SPEED\<close>; they stay below that limit. The friction factor multiplies the
  sum of the velocity and the acceleration, which is why the limit is not
  \<open>ACCELERATION / (1 - FRICTION)\<close>.
\<close>

theorem throttle_asymptote:
  assumes "flat g terrain" and "velocity bike = 0" and "angle bike = 0"
    and "angularVelocity bike = 0" and "inputs = noInputs\<lparr>throttle := True\<rparr>"
  shows "(\<forall>n. \<exists>bike'. physicsTicks n bike terrain inputs = Inr bike' \<and>
                velocity bike' = velocities bike terrain inputs n) \<and>
         mono (velocities bike terrain inputs) \<and>
         velocities bike terrain inputs \<longlonglongrightarrow> ACCELERATION * FRICTION / (1 - FRICTION) \<and>
         (\<forall>n. velocities bike terrain inputs n < ACCELERATION * FRICTION / (1 - FRICTION)) \<and>
         ACCELERATION * FRICTION / (1 - FRICTION) < MAX_SPEED"
proof -
  have v: "velocities bike terrain inputs = (\<lambda>n. 6 * (1 - FRICTION ^ n))"
    using assms by (simp add: throttle_velocities fun_eq_iff)
  have L: "ACCELERATION * FRICTION / (1 - FRICTION) = 6"
    by (simp add: constants)
  have "mono (\<lambda>n. 6 * (1 - FRICTION ^ n))"
    by (rule monoI) (simp add: FRICTION_def power_decreasing)
  moreover have "\<forall>n. \<exists>bike'. physicsTicks n bike terrain inputs = Inr bike' \<and>
                velocity bike' = 6 * (1 - FRICTION ^ n)"
    using throttle_ticks [of g terrain bike] assms by blast
  moreover have "\<forall>n. 6 * (1 - FRICTION ^ n) < (6::real)"
    by (simp add: FRICTION_def)
  ultimately show ?thesis
    unfolding v L using throttle_limit by (simp add: MAX_SPEED_def)
qed

text \<open>The bike at rest on flat ground of a hundred samples.\<close>

theorem throttle_asymptote_witness:
  "flat 0 (levelGround 100 0) \<and> velocity restBike = 0 \<and> angle restBike = 0 \<and>
   angularVelocity restBike = 0 \<and>
   mono (velocities restBike (levelGround 100 0) (noInputs\<lparr>throttle := True\<rparr>)) \<and>
   velocities restBike (levelGround 100 0) (noInputs\<lparr>throttle := True\<rparr>)
     \<longlonglongrightarrow> ACCELERATION * FRICTION / (1 - FRICTION)"
proof -
  have f: "flat 0 (levelGround 100 0)"
    by (simp add: flat_levelGround)
  have r: "velocity restBike = 0" "angle restBike = 0" "angularVelocity restBike = 0"
    by (simp_all add: restBike_def)
  from throttle_asymptote [OF f r refl] show ?thesis
    using f r by simp
qed

text \<open>Claim C5 as it is written fails there: the velocities do not converge to
  \<open>ACCELERATION / (1 - FRICTION)\<close>.\<close>

theorem throttle_asymptote_counterexample:
  "\<not> velocities restBike (levelGround 100 0) (noInputs\<lparr>throttle := True\<rparr>)
        \<longlonglongrightarrow> ACCELERATION / (1 - FRICTION)"
proof
  assume a: "velocities restBike (levelGround 100 0) (noInputs\<lparr>throttle := True\<rparr>)
        \<longlonglongrightarrow> ACCELERATION / (1 - FRICTION)"
  have "velocities restBike (levelGround 100 0) (noInputs\<lparr>throttle := True\<rparr>)
      = (\<lambda>n. 6 * (1 - FRICTION ^ n))"
    by (simp add: throttle_velocities [of 0] flat_levelGround restBike_def fun_eq_iff)
  with a have "ACCELERATION / (1 - FRICTION) = 6"
    using throttle_limit LIMSEQ_unique by metis
  then show False
    by (simp add: constants)
qed

section \<open>The crash test\<close>

text \<open>The normalised angle is the absolute angle modulo \<open>2\<pi>\<close>: the remainder keeps the sign
  of the angle, and the absolute value removes it.\<close>

lemma pi_ge_3: "3 \<le> pi"
  using sin_x_le_x [of "pi / 6"] by (simp add: sin_30)

lemma trunc_bounds:
  "(0 \<le> r \<longrightarrow> 0 \<le> r - real_of_int (trunc r) \<and> r - real_of_int (trunc r) < 1) \<and>
   (r < 0 \<longrightarrow> - 1 < r - real_of_int (trunc r) \<and> r - real_of_int (trunc r) \<le> 0)"
  unfolding trunc_def by (auto; linarith)

lemma js_rem_abs:
  assumes "0 < b"
  shows "\<bar>js_rem a b\<bar> = \<bar>a\<bar> - b * real_of_int \<lfloor>\<bar>a\<bar> / b\<rfloor>"
proof (cases "0 \<le> a")
  case True
  with assms have r: "0 \<le> a / b" by simp
  from trunc_bounds [of "a / b"] r have "0 \<le> a / b - real_of_int (trunc (a / b))"
    by simp
  then have "0 \<le> b * (a / b - real_of_int (trunc (a / b)))"
    using assms by simp
  then have "0 \<le> js_rem a b"
    using assms by (simp add: js_rem_def algebra_simps)
  with True r show ?thesis
    by (simp add: js_rem_def trunc_def)
next
  case False
  with assms have r: "a / b < 0" by (simp add: divide_neg_pos)
  from trunc_bounds [of "a / b"] r have "a / b - real_of_int (trunc (a / b)) \<le> 0"
    by simp
  then have "b * (a / b - real_of_int (trunc (a / b))) \<le> 0"
    using assms by (simp add: mult_le_0_iff)
  then have "js_rem a b \<le> 0"
    using assms by (simp add: js_rem_def algebra_simps)
  moreover have "\<lceil>a / b\<rceil> = - \<lfloor>\<bar>a\<bar> / b\<rfloor>"
    using False assms by (simp add: ceiling_def)
  ultimately show ?thesis
    using False r by (simp add: js_rem_def trunc_def algebra_simps)
qed

lemma normalizedAngle_abs:
  "normalizedAngle a = \<bar>a\<bar> - pi * 2 * real_of_int \<lfloor>\<bar>a\<bar> / (pi * 2)\<rfloor>"
  unfolding normalizedAngle_def by (rule js_rem_abs) simp

lemma normalizedAngle_range: "0 \<le> normalizedAngle a \<and> normalizedAngle a < 2 * pi"
proof -
  define q where "q = \<lfloor>\<bar>a\<bar> / (pi * 2)\<rfloor>"
  have "real_of_int q \<le> \<bar>a\<bar> / (pi * 2)"
    unfolding q_def by (rule of_int_floor_le)
  then have lo: "real_of_int q * (pi * 2) \<le> \<bar>a\<bar>"
    by (simp add: pos_le_divide_eq)
  have "\<bar>a\<bar> / (pi * 2) < real_of_int q + 1"
    unfolding q_def by (rule floor_correct [THEN conjunct2, simplified] ) 
  then have hi: "\<bar>a\<bar> < (real_of_int q + 1) * (pi * 2)"
    by (simp add: pos_divide_less_eq)
  have "normalizedAngle a = \<bar>a\<bar> - real_of_int q * (pi * 2)"
    by (simp add: normalizedAngle_abs q_def)
  with lo hi show ?thesis
    by (simp add: algebra_simps)
qed

lemma normalizedAngle_small:
  assumes "\<bar>a\<bar> < 2 * pi"
  shows "normalizedAngle a = \<bar>a\<bar>"
proof -
  have "\<lfloor>\<bar>a\<bar> / (pi * 2)\<rfloor> = 0"
    using assms by (simp add: floor_eq_iff)
  then show ?thesis
    by (simp add: normalizedAngle_abs)
qed

lemma headCollision_window:
  assumes "pi / 1.8 < a" and "a < pi * 1.5"
  shows "headCollision a"
proof -
  have "0 < pi / 1.8" "pi * 1.5 \<le> 2 * pi"
    by simp_all
  with assms have "0 < a" "a < 2 * pi"
    by (blast intro: less_trans, blast intro: less_le_trans)
  then have "\<bar>a\<bar> < 2 * pi" "\<bar>a\<bar> = a"
    by simp_all
  with assms show ?thesis
    by (simp add: headCollision_def normalizedAngle_small)
qed

lemma headCollision_0: "\<not> headCollision 0"
  by (simp add: headCollision_def normalizedAngle_small)

lemma not_headCollision_backward: "\<not> headCollision (- (11 / 20) * pi)"
proof -
  have "normalizedAngle (- (11 / 20) * pi) = (11 / 20) * pi"
    by (subst normalizedAngle_small) (simp_all add: abs_mult)
  then show ?thesis
    by (simp add: headCollision_def)
qed

lemma not_headCollision_spin_inverted: "\<not> headCollision (pi + 23 / 10)"
proof -
  have p: "3 \<le> pi" "pi < 4"
    using pi_ge_3 pi_less_4 by simp_all
  then have "normalizedAngle (pi + 23 / 10) = pi + 23 / 10"
    by (subst normalizedAngle_small) simp_all
  with p show ?thesis
    by (simp add: headCollision_def)
qed

lemma headCollision_spin: "headCollision (69 / 25)"
  using pi_ge_3 pi_less_4 by (intro headCollision_window) simp_all

text \<open>
  Claim C1, as the program behaves. In a frame of a run in progress, whatever the pose
  of the bike and whether it is airborne or not, the angle after the update is taken to
  its absolute value modulo \<open>2\<pi>\<close>, a number in \<open>[0, 2\<pi>)\<close>; when the same frame does not
  reach the finish line, the game is crashed after the frame exactly when that number
  lies strictly between \<open>\<pi> / 1.8\<close> and \<open>1.5 \<pi>\<close>.
\<close>

theorem crash_detection:
  assumes "gameState s = PLAYING"
    and "physicsUpdate (bikeRef s) (terrainRef s) (inputsRef s) = Inr bike"
    and "length (terrainRef s) < 20 \<or>
         bike_x bike < pt_x (terrainRef s ! (length (terrainRef s) - 20))"
  shows "normalizedAngle (angle bike)
           = \<bar>angle bike\<bar> - pi * 2 * real_of_int \<lfloor>\<bar>angle bike\<bar> / (pi * 2)\<rfloor> \<and>
         0 \<le> normalizedAngle (angle bike) \<and> normalizedAngle (angle bike) < 2 * pi \<and>
         bikeRef (stateAfter (gameLoop now s)) = bike \<and>
         (gameState (stateAfter (gameLoop now s)) = CRASHED \<longleftrightarrow>
            pi / 1.8 < normalizedAngle (angle bike) \<and> normalizedAngle (angle bike) < pi * 1.5)"
  using gameLoop_no_win [OF assms, of now] gameLoop_bike [OF assms(1,2), of now]
    normalizedAngle_range [of "angle bike"] normalizedAngle_abs [of "angle bike"]
  by (simp add: headCollision_def)

text \<open>The inverted bike at rest on flat ground of forty samples, far from the finish.\<close>

theorem crash_detection_witness:
  "gameState (ride 40 (restBike\<lparr>angle := pi\<rparr>)) = PLAYING \<and>
   physicsUpdate (bikeRef (ride 40 (restBike\<lparr>angle := pi\<rparr>)))
     (terrainRef (ride 40 (restBike\<lparr>angle := pi\<rparr>)))
     (inputsRef (ride 40 (restBike\<lparr>angle := pi\<rparr>))) = Inr (restBike\<lparr>angle := pi\<rparr>) \<and>
   bike_x (restBike\<lparr>angle := pi\<rparr>)
     < pt_x (terrainRef (ride 40 (restBike\<lparr>angle := pi\<rparr>)) !
         (length (terrainRef (ride 40 (restBike\<lparr>angle := pi\<rparr>))) - 20)) \<and>
   normalizedAngle pi = pi \<and>
   gameState (stateAfter (gameLoop 0 (ride 40 (restBike\<lparr>angle := pi\<rparr>)))) = CRASHED"
proof -
  let ?A = "ride 40 (restBike\<lparr>angle := pi\<rparr>)"
  have p: "gameState ?A = PLAYING"
    by (simp add: ride_simps)
  have a: "physicsUpdate (bikeRef ?A) (terrainRef ?A) (inputsRef ?A) = Inr (restBike\<lparr>angle := pi\<rparr>)"
    by (simp add: ride_simps physicsUpdate_ride_inverted)
  have x: "bike_x (restBike\<lparr>angle := pi\<rparr>)
     < pt_x (terrainRef ?A ! (length (terrainRef ?A) - 20))"
    by (simp add: ride_simps levelGround_simps restBike_def segmentLength_def)
  have n: "normalizedAngle pi = pi"
    by (subst normalizedAngle_small) simp_all
  from crash_detection [OF p a disjI2 [OF x], of 0] show ?thesis
    using p a x n by simp
qed

text \<open>
  Claim C1 as it is written fails twice. The inverted bike beyond the finish line ends
  its frame with the game won, not crashed. And a bike that the frame turns backwards
  to the angle \<open>- 0.55 \<pi>\<close>, which is \<open>1.45 \<pi>\<close> modulo \<open>2\<pi>\<close> and so inside the window,
  goes on playing, because the test reads the absolute value \<open>0.55 \<pi>\<close>.
\<close>

theorem crash_detection_counterexample:
  "angle (bikeRef (stateAfter (gameLoop 0 (ride 20 (restBike\<lparr>angle := pi\<rparr>))))) = pi \<and>
   pi / 1.8 < pi \<and> pi < pi * 1.5 \<and>
   gameState (stateAfter (gameLoop 0 (ride 20 (restBike\<lparr>angle := pi\<rparr>)))) = WON \<and>
   angle (bikeRef (stateAfter (gameLoop 0
     (ride 40 (restBike\<lparr>angularVelocity := - (55 / 92) * pi\<rparr>))))) = - (11 / 20) * pi \<and>
   0 \<le> - (11 / 20) * pi + 2 * pi \<and> - (11 / 20) * pi + 2 * pi < 2 * pi \<and>
   pi / 1.8 < - (11 / 20) * pi + 2 * pi \<and> - (11 / 20) * pi + 2 * pi < pi * 1.5 \<and>
   gameState (stateAfter (gameLoop 0
     (ride 40 (restBike\<lparr>angularVelocity := - (55 / 92) * pi\<rparr>)))) = PLAYING"
proof -
  let ?A = "ride 20 (restBike\<lparr>angle := pi\<rparr>)"
  let ?B = "ride 40 (restBike\<lparr>angularVelocity := - (55 / 92) * pi\<rparr>)"
  have a: "physicsUpdate (bikeRef ?A) (terrainRef ?A) (inputsRef ?A) = Inr (restBike\<lparr>angle := pi\<rparr>)"
    by (simp add: ride_simps physicsUpdate_ride_inverted)
  have b: "physicsUpdate (bikeRef ?B) (terrainRef ?B) (inputsRef ?B)
      = Inr (restBike\<lparr>angularVelocity := - (11 / 20) * pi, angle := - (11 / 20) * pi\<rparr>)"
    using physicsUpdate_ride_backward [of 40] by (simp add: ride_simps)
  have "gameState (stateAfter (gameLoop 0 ?A)) = WON"
    by (rule gameLoop_win [OF _ a])
      (simp_all add: ride_simps levelGround_simps restBike_def)
  moreover have "gameState (stateAfter (gameLoop 0 ?B)) = PLAYING"
    using gameLoop_no_win [OF _ b, of 0] not_headCollision_backward
    by (simp add: ride_simps levelGround_simps restBike_def segmentLength_def)
  moreover have "bikeRef (stateAfter (gameLoop 0 ?A)) = restBike\<lparr>angle := pi\<rparr>"
    by (rule gameLoop_bike [OF _ a]) (simp add: ride_simps)
  moreover have "bikeRef (stateAfter (gameLoop 0 ?B))
      = restBike\<lparr>angularVelocity := - (11 / 20) * pi, angle := - (11 / 20) * pi\<rparr>"
    by (rule gameLoop_bike [OF _ b]) (simp add: ride_simps)
  ultimately show ?thesis
    by simp
qed

text \<open>An inverted bike without angular velocity stays in the window for one frame on
  any terrain and with any flags; an upright one on flat ground stays upright while
  neither rotation flag is held.\<close>

lemma atan2_range: "- pi < atan2 y x \<and> atan2 y x \<le> pi"
proof -
  have "- (pi / 2) < arctan (y / x)" "arctan (y / x) < pi / 2"
    by (rule arctan_lbound, rule arctan_ubound)
  moreover have "arctan (y / x) \<le> 0" if "x < 0" "0 \<le> y"
    using that by (simp add: divide_nonneg_neg)
  moreover have "0 < arctan (y / x)" if "x < 0" "y < 0"
    using that by (simp add: divide_neg_neg)
  moreover have "0 < pi" by simp
  ultimately show ?thesis
    unfolding atan2_def by (auto; linarith)
qed

lemma inverted_rotation:
  fixes D :: real and n a l r :: bool
  assumes "- (2 * pi) < D" and "D \<le> 0"
  defines "turn \<equiv>
       (let d = D;
            w = (if n \<and> a then 0 - 0.02 else 0);
            w = w + d * (if n then 0.05 else 0.15);
            f = (if 0.5 < \<bar>d\<bar> then ROTATION_SPEED * AIR_ROTATION_BOOST else ROTATION_SPEED);
            w = (if l then w - f else w);
            w = (if r then w + f else w)
        in w * ANGULAR_DAMPING)"
  shows "pi / 1.8 < pi + turn \<and> pi + turn < pi * 1.5"
proof -
  have p: "3 \<le> pi" "pi < 4"
    using pi_ge_3 pi_less_4 by simp_all
  define f where "f = (if 0.5 < \<bar>D\<bar> then ROTATION_SPEED * AIR_ROTATION_BOOST else ROTATION_SPEED)"
  define w where "w = (if n \<and> a then 0 - 0.02 else 0) + D * (if n then 0.05 else 0.15)"
  have f: "0 \<le> f" "f \<le> 0.072"
    by (simp_all add: f_def ROTATION_SPEED_def AIR_ROTATION_BOOST_def)
  have w: "- 0.02 - 0.3 * pi < w" "w \<le> 0"
    using assms(1,2) p by (auto simp add: w_def)
  have t: "turn = (if r then (if l then w - f else w) + f else (if l then w - f else w)) * 0.92"
    by (simp add: turn_def Let_def w_def f_def ANGULAR_DAMPING_def)
  have "0.92 * (w - f) \<le> turn" "turn \<le> 0.92 * (w + f)"
    using f unfolding t by auto
  with w f p show ?thesis
    by auto
qed

lemma physicsUpdate_inverted:
  assumes "terrain \<noteq> []" and "angle bike = pi" and "angularVelocity bike = 0"
  shows "\<exists>bike'. physicsUpdate bike terrain inputs = Inr bike' \<and>
           pi / 1.8 < angle bike' \<and> angle bike' < pi * 1.5"
proof -
  obtain g where g: "getTerrainHeight (bike_x bike) terrain = Inr g"
    using getTerrainHeight_total [OF assms(1)] by blast
  obtain h where h: "getTerrainHeight (bike_x bike + cos (angle bike) * WHEEL_BASE) terrain = Inr h"
    using getTerrainHeight_total [OF assms(1)] by blast
  have "- pi < atan2 (h - g) (cos pi * WHEEL_BASE)" "atan2 (h - g) (cos pi * WHEEL_BASE) \<le> pi"
    using atan2_range by blast+
  then have d: "- (2 * pi) < atan2 (h - g) (cos pi * WHEEL_BASE) - pi"
    "atan2 (h - g) (cos pi * WHEEL_BASE) - pi \<le> 0"
    by simp_all
  from physicsUpdate_angle [OF g h, of inputs] inverted_rotation [OF d]
  show ?thesis
    unfolding assms(2,3) by metis
qed

lemma level_frame:
  assumes "flat g (terrainRef s)" and "angle (bikeRef s) = 0"
    and "angularVelocity (bikeRef s) = 0" and "\<bar>bike_y (bikeRef s) - g\<bar> \<le> 10"
    and "gameState s \<noteq> CRASHED"
    and "\<not> left (inputsRef s)" and "\<not> right (inputsRef s)"
  shows "flat g (terrainRef (stateAfter (gameLoop now s))) \<and>
         angle (bikeRef (stateAfter (gameLoop now s))) = 0 \<and>
         angularVelocity (bikeRef (stateAfter (gameLoop now s))) = 0 \<and>
         \<bar>bike_y (bikeRef (stateAfter (gameLoop now s))) - g\<bar> \<le> 10 \<and>
         gameState (stateAfter (gameLoop now s)) \<noteq> CRASHED"
proof (cases "gameState s = PLAYING")
  case False
  then have "stateAfter (gameLoop now s) = s"
    by (simp add: gameLoop_not_playing stateAfter_def)
  with assms show ?thesis by simp
next
  case True
  have "terrainRef s \<noteq> []"
    using assms(1) by (simp add: flat_def)
  then obtain bike where b: "physicsUpdate (bikeRef s) (terrainRef s) (inputsRef s) = Inr bike"
    using physicsUpdate_total by blast
  with assms have bike: "angle bike = 0" "angularVelocity bike = 0" "bike_y bike = g"
    by (auto simp add: physicsUpdate_level [OF assms(1,2)] Let_def)
  then have "\<not> headCollision (angle bike)"
    by (simp add: headCollision_0)
  from gameLoop_no_crash [OF True b this, of now] gameLoop_bike [OF True b, of now]
    gameLoop_terrain [of now s] assms(1) bike
  show ?thesis by auto
qed

lemma stateAfter_frames_Cons:
  "stateAfter (frames ((now, inputs) # rest) s) =
     (case gameLoop now (s\<lparr>inputsRef := inputs\<rparr>) of
        Inl e \<Rightarrow> stateAfter (gameLoop now (s\<lparr>inputsRef := inputs\<rparr>))
      | Inr s' \<Rightarrow> stateAfter (frames rest s'))"
  by (simp add: stateAfter_def split: sum.splits)

lemma level_frames:
  assumes "flat g (terrainRef s)" and "angle (bikeRef s) = 0"
    and "angularVelocity (bikeRef s) = 0" and "\<bar>bike_y (bikeRef s) - g\<bar> \<le> 10"
    and "gameState s \<noteq> CRASHED"
    and "\<forall>(now, inputs) \<in> set fs. \<not> left inputs \<and> \<not> right inputs"
  shows "gameState (stateAfter (frames fs s)) \<noteq> CRASHED"
  using assms
proof (induction fs arbitrary: s)
  case Nil
  then show ?case by (simp add: stateAfter_def)
next
  case (Cons f fs)
  obtain now inputs where f: "f = (now, inputs)" by (cases f)
  let ?s = "s\<lparr>inputsRef := inputs\<rparr>"
  have inv: "flat g (terrainRef (stateAfter (gameLoop now ?s))) \<and>
         angle (bikeRef (stateAfter (gameLoop now ?s))) = 0 \<and>
         angularVelocity (bikeRef (stateAfter (gameLoop now ?s))) = 0 \<and>
         \<bar>bike_y (bikeRef (stateAfter (gameLoop now ?s))) - g\<bar> \<le> 10 \<and>
         gameState (stateAfter (gameLoop now ?s)) \<noteq> CRASHED"
    using Cons.prems f by (intro level_frame) simp_all
  show ?case
  proof (cases "gameLoop now ?s")
    case (Inl e)
    with inv show ?thesis
      unfolding f stateAfter_frames_Cons by simp
  next
    case (Inr s')
    with inv have "flat g (terrainRef s')" "angle (bikeRef s') = 0"
      "angularVelocity (bikeRef s') = 0" "\<bar>bike_y (bikeRef s') - g\<bar> \<le> 10"
      "gameState s' \<noteq> CRASHED"
      by (simp_all add: stateAfter_def)
    moreover have "\<forall>(now, inputs) \<in> set fs. \<not> left inputs \<and> \<not> right inputs"
      using Cons.prems(6) by simp
    ultimately have "gameState (stateAfter (frames fs s')) \<noteq> CRASHED"
      by (rule Cons.IH)
    with Inr show ?thesis
      unfolding f stateAfter_frames_Cons by simp
  qed
qed

text \<open>
  Claim C9, as the program behaves. A bike with angle \<open>\<pi>\<close> and no angular velocity, on
  any non-empty terrain and with any flags, is inside the head collision window after
  one frame, and the game is crashed unless the same frame reaches the finish line.
  A bike with angle 0 and no angular velocity, on flat ground and within the airborne
  threshold of it, never crashes, over any number of frames in which neither the left
  nor the right flag is held.
\<close>

theorem crash_window_cases:
  "(gameState s = PLAYING \<and> terrainRef s \<noteq> [] \<and>
    angle (bikeRef s) = pi \<and> angularVelocity (bikeRef s) = 0 \<longrightarrow>
      (\<exists>bike. physicsUpdate (bikeRef s) (terrainRef s) (inputsRef s) = Inr bike \<and>
         pi / 1.8 < normalizedAngle (angle bike) \<and> normalizedAngle (angle bike) < pi * 1.5 \<and>
         (length (terrainRef s) < 20 \<or>
          bike_x bike < pt_x (terrainRef s ! (length (terrainRef s) - 20)) \<longrightarrow>
            gameState (stateAfter (gameLoop now s)) = CRASHED))) \<and>
   (gameState s = PLAYING \<and> flat g (terrainRef s) \<and>
    angle (bikeRef s) = 0 \<and> angularVelocity (bikeRef s) = 0 \<and>
    \<bar>bike_y (bikeRef s) - g\<bar> \<le> 10 \<and>
    (\<forall>(now, inputs) \<in> set fs. \<not> left inputs \<and> \<not> right inputs) \<longrightarrow>
      gameState (stateAfter (frames fs s)) \<noteq> CRASHED)"
proof (intro conjI impI)
  assume a: "gameState s = PLAYING \<and> terrainRef s \<noteq> [] \<and>
    angle (bikeRef s) = pi \<and> angularVelocity (bikeRef s) = 0"
  then obtain bike where b: "physicsUpdate (bikeRef s) (terrainRef s) (inputsRef s) = Inr bike"
    and w: "pi / 1.8 < angle bike" "angle bike < pi * 1.5"
    using physicsUpdate_inverted [of "terrainRef s" "bikeRef s" "inputsRef s"] by blast
  have h: "headCollision (angle bike)"
    using w by (rule headCollision_window)
  have "length (terrainRef s) < 20 \<or>
          bike_x bike < pt_x (terrainRef s ! (length (terrainRef s) - 20)) \<longrightarrow>
            gameState (stateAfter (gameLoop now s)) = CRASHED"
    using gameLoop_no_win [OF _ b, of now] a h by simp
  with b h show "\<exists>bike. physicsUpdate (bikeRef s) (terrainRef s) (inputsRef s) = Inr bike \<and>
         pi / 1.8 < normalizedAngle (angle bike) \<and> normalizedAngle (angle bike) < pi * 1.5 \<and>
         (length (terrainRef s) < 20 \<or>
          bike_x bike < pt_x (terrainRef s ! (length (terrainRef s) - 20)) \<longrightarrow>
            gameState (stateAfter (gameLoop now s)) = CRASHED)"
    unfolding headCollision_def by blast
next
  assume "gameState s = PLAYING \<and> flat g (terrainRef s) \<and>
    angle (bikeRef s) = 0 \<and> angularVelocity (bikeRef s) = 0 \<and>
    \<bar>bike_y (bikeRef s) - g\<bar> \<le> 10 \<and>
    (\<forall>(now, inputs) \<in> set fs. \<not> left inputs \<and> \<not> right inputs)"
  then show "gameState (stateAfter (frames fs s)) \<noteq> CRASHED"
    by (intro level_frames [of g]) simp_all
qed

text \<open>The inverted and the upright bike at rest on flat ground of forty samples; the
  upright one rides two frames, with the throttle and then with the nitro.\<close>

theorem crash_window_cases_witness:
  "gameState (ride 40 (restBike\<lparr>angle := pi\<rparr>)) = PLAYING \<and>
   terrainRef (ride 40 (restBike\<lparr>angle := pi\<rparr>)) \<noteq> [] \<and>
   angle (bikeRef (ride 40 (restBike\<lparr>angle := pi\<rparr>))) = pi \<and>
   angularVelocity (bikeRef (ride 40 (restBike\<lparr>angle := pi\<rparr>))) = 0 \<and>
   gameState (stateAfter (gameLoop 0 (ride 40 (restBike\<lparr>angle := pi\<rparr>)))) = CRASHED \<and>
   gameState (ride 40 restBike) = PLAYING \<and> flat 0 (terrainRef (ride 40 restBike)) \<and>
   angle (bikeRef (ride 40 restBike)) = 0 \<and> angularVelocity (bikeRef (ride 40 restBike)) = 0 \<and>
   \<bar>bike_y (bikeRef (ride 40 restBike)) - 0\<bar> \<le> 10 \<and>
   gameState (stateAfter (frames [(0, noInputs\<lparr>throttle := True\<rparr>), (16, noInputs\<lparr>nitro := True\<rparr>)]
     (ride 40 restBike))) \<noteq> CRASHED"
proof -
  let ?A = "ride 40 (restBike\<lparr>angle := pi\<rparr>)"
  let ?fs = "[(0, noInputs\<lparr>throttle := True\<rparr>), (16::real, noInputs\<lparr>nitro := True\<rparr>)]"
  have a: "physicsUpdate (bikeRef ?A) (terrainRef ?A) (inputsRef ?A) = Inr (restBike\<lparr>angle := pi\<rparr>)"
    by (simp add: ride_simps physicsUpdate_ride_inverted)
  have h: "gameState ?A = PLAYING" "terrainRef ?A \<noteq> []" "angle (bikeRef ?A) = pi"
    "angularVelocity (bikeRef ?A) = 0"
    "bike_x (restBike\<lparr>angle := pi\<rparr>) < pt_x (terrainRef ?A ! (length (terrainRef ?A) - 20))"
    by (simp_all add: ride_simps levelGround_simps restBike_def segmentLength_def)
      (simp add: levelGround_def)
  have k: "gameState (ride 40 restBike) = PLAYING" "flat 0 (terrainRef (ride 40 restBike))"
    "angle (bikeRef (ride 40 restBike)) = 0" "angularVelocity (bikeRef (ride 40 restBike)) = 0"
    "\<bar>bike_y (bikeRef (ride 40 restBike)) - 0\<bar> \<le> 10"
    "\<forall>(now, inputs) \<in> set ?fs. \<not> left inputs \<and> \<not> right inputs"
    by (simp_all add: ride_simps flat_levelGround restBike_def noInputs_def)
  from crash_window_cases [of ?A 0 0 "[]"] crash_window_cases [of "ride 40 restBike" 0 0 ?fs]
  show ?thesis
    using a h k by simp
qed

text \<open>
  On a slope the stability spring turns the bike towards the angle of the slope and
  overshoots it. On the straight slope of gradient 5, whose angle \<open>arctan 5\<close> lies
  between \<open>0.425 \<pi>\<close> and \<open>0.4375 \<pi>\<close>, a bike that starts upright and at rest has the
  angles 0.138, 0.383916, 0.695178312 and 1.023605031984 times \<open>arctan 5\<close> after the
  first four frames with no flag held, all short of \<open>\<pi> / 2\<close>, and 1.322500119955488
  times \<open>arctan 5\<close> after the fifth, which is inside the head collision window.
\<close>

lemma slopeGround_simps:
  "length (slopeGround n m) = n"
  "i < n \<Longrightarrow> pt_x (slopeGround n m ! i) = real i * segmentLength"
  "i < n \<Longrightarrow> pt_y (slopeGround n m ! i) = m * (real i * segmentLength)"
  by (simp_all add: slopeGround_def)

lemma slope_height:
  assumes "0 \<le> x" and "x < real (n - 1) * segmentLength"
  shows "getTerrainHeight x (slopeGround n m) = Inr (m * x)"
proof -
  define k where "k = nat \<lfloor>x / segmentLength\<rfloor>"
  have fl: "0 \<le> \<lfloor>x / segmentLength\<rfloor>"
    using assms(1) by (simp add: segmentLength_def)
  have "x / segmentLength < real (n - 1)"
    using assms(2) by (simp add: segmentLength_def)
  then have "\<lfloor>x / segmentLength\<rfloor> < int (n - 1)"
    by (simp add: floor_less_iff)
  moreover have "0 < real (n - 1)"
    using assms by (smt (verit) mult_nonpos_nonneg of_nat_0_le_iff segmentLength_def
        zero_less_mult_iff)
  then have "int (n - 1) = int n - 1"
    by simp
  ultimately have less: "\<lfloor>x / segmentLength\<rfloor> < int (length (slopeGround n m)) - 1"
    by (simp add: slopeGround_simps)
  with fl have k: "Suc k < n"
    unfolding k_def by (simp add: slopeGround_simps) linarith
  have "getTerrainHeight x (slopeGround n m) =
      Inr (pt_y (slopeGround n m ! k) +
           (pt_y (slopeGround n m ! (k + 1)) - pt_y (slopeGround n m ! k)) *
           ((x - pt_x (slopeGround n m ! k)) / segmentLength))"
    unfolding k_def by (rule getTerrainHeight_inner [OF assms(1) less])
  also have "\<dots> = Inr (m * x)"
    using k by (simp add: slopeGround_simps segmentLength_def field_simps)
  finally show ?thesis .
qed

lemma arctan_5_bounds: "(17 / 40) * pi < arctan 5 \<and> arctan 5 < (7 / 16) * pi"
proof -
  have inv: "arctan (1 / 5) = pi / 2 - arctan 5"
    using arctan_inverse [of 5] by simp
  have "0 < arctan (3 / 79)"
    by simp
  with machin_Euler have "arctan (1 / 7) < pi / 20"
    by linarith
  moreover have "arctan (1 / 239) < arctan (1 / 7)"
    by (rule arctan_monotone) simp
  moreover have "0 < arctan (1 / 239)"
    by simp
  ultimately have "pi / 16 < arctan (1 / 5)" "arctan (1 / 5) < pi / 16 + pi / 80"
    using machin by linarith+
  with inv show ?thesis
    by simp
qed

lemma physicsUpdate_noInputs:
  assumes "getTerrainHeight (bike_x bike) terrain = Inr g"
    and "getTerrainHeight (bike_x bike + cos (angle bike) * WHEEL_BASE) terrain = Inr h"
  shows "physicsUpdate bike terrain noInputs =
     Inr (let v = (velocity bike + sin (angle bike) * GRAVITY) * FRICTION;
              v = (if MAX_SPEED < v then MAX_SPEED else v);
              v = (if v < - MAX_SPEED then - MAX_SPEED else v);
              w = (angularVelocity bike +
                   (atan2 (h - g) (cos (angle bike) * WHEEL_BASE) - angle bike) * 0.15)
                  * ANGULAR_DAMPING
          in bike\<lparr>bike_x := bike_x bike + cos (angle bike) * v, bike_y := g, velocity := v,
                   angularVelocity := w, angle := angle bike + w\<rparr>)"
  unfolding physicsUpdate_def Let_def assms by (simp add: noInputs_def)

lemma slope_update:
  assumes "angle bike = c * arctan 5" and "angularVelocity bike = d * arctan 5"
    and "0 \<le> c" and "c * arctan 5 < pi / 2"
    and "100 \<le> bike_x bike" and "bike_x bike \<le> 200"
    and "0 \<le> velocity bike" and "velocity bike \<le> 2"
  shows "\<exists>bike'. physicsUpdate bike (slopeGround 40 5) noInputs = Inr bike' \<and>
           angle bike' = (c + 0.92 * (d + 0.15 * (1 - c))) * arctan 5 \<and>
           angularVelocity bike' = 0.92 * (d + 0.15 * (1 - c)) * arctan 5 \<and>
           bike_x bike \<le> bike_x bike' \<and> bike_x bike' \<le> bike_x bike + 3 \<and>
           0 \<le> velocity bike' \<and> velocity bike' \<le> velocity bike + 0.22"
proof -
  have T: "0 < arctan 5" by simp
  have a: "0 \<le> angle bike" "angle bike < pi / 2"
    using assms(1,3,4) T by simp_all
  have co: "0 < cos (angle bike)" "cos (angle bike) \<le> 1"
    using a by (simp_all add: cos_gt_zero_pi)
  have si: "0 \<le> sin (angle bike)" "sin (angle bike) \<le> 1"
    using a by (simp_all add: sin_ge_zero)
  have g: "getTerrainHeight (bike_x bike) (slopeGround 40 5) = Inr (5 * bike_x bike)"
    using assms(5,6) by (intro slope_height) (simp_all add: segmentLength_def)
  have "cos (angle bike) * WHEEL_BASE \<le> 70"
    using co by (simp add: WHEEL_BASE_def)
  moreover have "0 \<le> cos (angle bike) * WHEEL_BASE"
    using co by (simp add: WHEEL_BASE_def)
  ultimately have h: "getTerrainHeight (bike_x bike + cos (angle bike) * WHEEL_BASE) (slopeGround 40 5)
      = Inr (5 * (bike_x bike + cos (angle bike) * WHEEL_BASE))"
    using assms(5,6) by (intro slope_height) (simp_all add: segmentLength_def)
  have t: "atan2 (5 * (bike_x bike + cos (angle bike) * WHEEL_BASE) - 5 * bike_x bike)
             (cos (angle bike) * WHEEL_BASE) = arctan 5"
    using co by (simp add: atan2_def WHEEL_BASE_def algebra_simps)
  define v where "v = (velocity bike + sin (angle bike) * GRAVITY) * FRICTION"
  have v: "0 \<le> v" "v \<le> velocity bike + 11 / 50" "v \<le> 3"
  proof -
    have "0 \<le> sin (angle bike) * GRAVITY" "sin (angle bike) * GRAVITY \<le> 11 / 50"
      using si by (simp_all add: GRAVITY_def)
    then have s: "0 \<le> velocity bike + sin (angle bike) * GRAVITY"
      "velocity bike + sin (angle bike) * GRAVITY \<le> velocity bike + 11 / 50"
      using assms(7) by linarith+
    define u where "u = velocity bike + sin (angle bike) * GRAVITY"
    have "v = u * (24 / 25)"
      by (simp add: v_def u_def FRICTION_def)
    with s show "0 \<le> v" "v \<le> velocity bike + 11 / 50"
      unfolding u_def [symmetric] by simp_all
    then show "v \<le> 3"
      using assms(8) by linarith
  qed
  have cv: "0 \<le> cos (angle bike) * v" "cos (angle bike) * v \<le> 3"
  proof -
    show "0 \<le> cos (angle bike) * v"
      using co v by simp
    have "cos (angle bike) * v \<le> 1 * v"
      using co v by (intro mult_right_mono) simp_all
    with v show "cos (angle bike) * v \<le> 3"
      by linarith
  qed
  have clamp: "(if (if MAX_SPEED < v then MAX_SPEED else v) < - MAX_SPEED then - MAX_SPEED
                else (if MAX_SPEED < v then MAX_SPEED else v)) = v"
    using v by (simp add: MAX_SPEED_def)
  have "physicsUpdate bike (slopeGround 40 5) noInputs =
      Inr (bike\<lparr>bike_x := bike_x bike + cos (angle bike) * v, bike_y := 5 * bike_x bike,
             velocity := v,
             angularVelocity := (angularVelocity bike + (arctan 5 - angle bike) * 0.15)
                                  * ANGULAR_DAMPING,
             angle := angle bike + (angularVelocity bike + (arctan 5 - angle bike) * 0.15)
                                  * ANGULAR_DAMPING\<rparr>)"
    unfolding physicsUpdate_noInputs [OF g h] t Let_def v_def [symmetric] clamp ..
  moreover have "angle bike + (angularVelocity bike + (arctan 5 - angle bike) * 0.15)
        * ANGULAR_DAMPING = (c + 0.92 * (d + 0.15 * (1 - c))) * arctan 5"
    and "(angularVelocity bike + (arctan 5 - angle bike) * 0.15) * ANGULAR_DAMPING
        = 0.92 * (d + 0.15 * (1 - c)) * arctan 5"
    by (simp_all add: assms(1,2) ANGULAR_DAMPING_def field_simps)
  ultimately show ?thesis
    using v cv by simp
qed

lemma gameLoop_on_course:
  assumes "gameState s = PLAYING"
    and "physicsUpdate (bikeRef s) (terrainRef s) (inputsRef s) = Inr bike"
    and "20 \<le> length (terrainRef s)"
    and "bike_x bike < pt_x (terrainRef s ! (length (terrainRef s) - 20))"
  shows "\<exists>s'. gameLoop now s = Inr s' \<and> bikeRef s' = bike \<and> terrainRef s' = terrainRef s \<and>
           gameState s' = (if headCollision (angle bike) then CRASHED else PLAYING)"
proof -
  have "elem_at (terrainRef s) (int (length (terrainRef s)) - 20)
          = Some (terrainRef s ! (length (terrainRef s) - 20))"
    using assms(3) by (simp add: elem_at_def nat_diff_distrib')
  moreover have "\<not> pt_x (terrainRef s ! (length (terrainRef s) - 20)) \<le> bike_x bike"
    using assms(4) by simp
  ultimately show ?thesis
    using assms(1,2)
    by (cases "headCollision (angle bike)") (simp_all add: gameLoop_def Let_def)
qed

lemma upright_slope:
  assumes "0 \<le> c" and "c \<le> 11 / 10"
  shows "c * arctan 5 < pi / 2" and "\<not> headCollision (c * arctan 5)"
proof -
  have T: "0 < arctan 5" "arctan 5 < (7 / 16) * pi"
    using arctan_5_bounds by simp_all
  have "c * arctan 5 \<le> (11 / 10) * arctan 5"
    using assms(2) T(1) by (intro mult_right_mono) simp_all
  with T show less: "c * arctan 5 < pi / 2"
    using pi_gt_zero by linarith
  have nonneg: "0 \<le> c * arctan 5"
    using assms(1) T(1) by simp
  have "pi / 2 < 2 * pi" "pi / 2 < pi / 1.8"
    by simp_all
  with less nonneg have "normalizedAngle (c * arctan 5) = c * arctan 5" "c * arctan 5 < pi / 1.8"
    by (simp_all add: normalizedAngle_small)
  then show "\<not> headCollision (c * arctan 5)"
    by (simp add: headCollision_def)
qed

lemma crash_slope:
  assumes "131 / 100 \<le> c" and "c \<le> 14 / 10"
  shows "headCollision (c * arctan 5)"
proof (rule headCollision_window)
  have T: "(17 / 40) * pi < arctan 5" "arctan 5 < (7 / 16) * pi" "0 < arctan 5"
    using arctan_5_bounds by simp_all
  have "(131 / 100) * arctan 5 \<le> c * arctan 5"
    using assms(1) T(3) by (intro mult_right_mono) simp_all
  then have "(5 / 9) * pi < c * arctan 5"
    using T(1) pi_gt_zero by linarith
  then show "pi / 1.8 < c * arctan 5"
    by simp
  have "c * arctan 5 \<le> (14 / 10) * arctan 5"
    using assms(2) T(3) by (intro mult_right_mono) simp_all
  then have "c * arctan 5 < (3 / 2) * pi"
    using T(2) pi_gt_zero by linarith
  then show "c * arctan 5 < pi * 1.5"
    by simp
qed

lemma slope_frame:
  assumes "onSlope c d k s" and "0 \<le> c" and "c \<le> 11 / 10" and "0 \<le> k" and "k \<le> 9"
  shows "\<exists>s'. gameLoop now (s\<lparr>inputsRef := noInputs\<rparr>) = Inr s' \<and>
           terrainRef s' = slopeGround 40 5 \<and>
           gameState s' =
             (if headCollision ((c + 0.92 * (d + 0.15 * (1 - c))) * arctan 5)
              then CRASHED else PLAYING) \<and>
           angle (bikeRef s') = (c + 0.92 * (d + 0.15 * (1 - c))) * arctan 5 \<and>
           angularVelocity (bikeRef s') = 0.92 * (d + 0.15 * (1 - c)) * arctan 5 \<and>
           100 \<le> bike_x (bikeRef s') \<and> bike_x (bikeRef s') \<le> 100 + 3 * (k + 1) \<and>
           0 \<le> velocity (bikeRef s') \<and> velocity (bikeRef s') \<le> (11 / 50) * (k + 1)"
proof -
  let ?s = "s\<lparr>inputsRef := noInputs\<rparr>"
  have s: "gameState s = PLAYING" "terrainRef s = slopeGround 40 5"
    "angle (bikeRef s) = c * arctan 5" "angularVelocity (bikeRef s) = d * arctan 5"
    "100 \<le> bike_x (bikeRef s)" "bike_x (bikeRef s) \<le> 100 + 3 * k"
    "0 \<le> velocity (bikeRef s)" "velocity (bikeRef s) \<le> (11 / 50) * k"
    using assms(1) by (simp_all add: onSlope_def)
  have x: "bike_x (bikeRef s) \<le> 200" and v: "velocity (bikeRef s) \<le> 2"
    using s(6,8) assms(5) by simp_all
  from slope_update [OF s(3,4) assms(2) upright_slope(1) [OF assms(2,3)] s(5) x s(7) v]
  obtain bike where b: "physicsUpdate (bikeRef s) (slopeGround 40 5) noInputs = Inr bike"
    and a: "angle bike = (c + 0.92 * (d + 0.15 * (1 - c))) * arctan 5"
      "angularVelocity bike = 0.92 * (d + 0.15 * (1 - c)) * arctan 5"
    and m: "bike_x (bikeRef s) \<le> bike_x bike" "bike_x bike \<le> bike_x (bikeRef s) + 3"
      "0 \<le> velocity bike" "velocity bike \<le> velocity (bikeRef s) + 0.22"
    by blast
  have p: "gameState ?s = PLAYING"
    and u: "physicsUpdate (bikeRef ?s) (terrainRef ?s) (inputsRef ?s) = Inr bike"
    and l: "20 \<le> length (terrainRef ?s)"
    using s(1,2) b by (simp_all add: slopeGround_simps)
  have f: "bike_x bike < pt_x (terrainRef ?s ! (length (terrainRef ?s) - 20))"
    using m(2) x by (simp add: s(2) slopeGround_simps segmentLength_def)
  from gameLoop_on_course [OF p u l f, of now]
  obtain s' where "gameLoop now ?s = Inr s'" "bikeRef s' = bike"
    "terrainRef s' = slopeGround 40 5"
    "gameState s' = (if headCollision (angle bike) then CRASHED else PLAYING)"
    using s(2) by auto
  moreover have "100 \<le> bike_x bike" "bike_x bike \<le> 100 + 3 * (k + 1)"
    "velocity bike \<le> (11 / 50) * (k + 1)"
    using m s(5,6,8) by simp_all
  ultimately show ?thesis
    using a m(3) by auto
qed

lemma slope_frame_upright:
  assumes "onSlope c d k s" and "0 \<le> c" and "c \<le> 11 / 10" and "0 \<le> k" and "k \<le> 9"
    and "c' = c + 0.92 * (d + 0.15 * (1 - c))" and "d' = 0.92 * (d + 0.15 * (1 - c))"
    and "0 \<le> c'" and "c' \<le> 11 / 10"
  shows "\<exists>s'. gameLoop now (s\<lparr>inputsRef := noInputs\<rparr>) = Inr s' \<and> onSlope c' d' (k + 1) s'"
proof -
  from slope_frame [OF assms(1-5), of now]
  obtain s' where s': "gameLoop now (s\<lparr>inputsRef := noInputs\<rparr>) = Inr s'"
    "terrainRef s' = slopeGround 40 5"
    "gameState s' = (if headCollision (c' * arctan 5) then CRASHED else PLAYING)"
    "angle (bikeRef s') = c' * arctan 5" "angularVelocity (bikeRef s') = d' * arctan 5"
    "100 \<le> bike_x (bikeRef s')" "bike_x (bikeRef s') \<le> 100 + 3 * (k + 1)"
    "0 \<le> velocity (bikeRef s')" "velocity (bikeRef s') \<le> (11 / 50) * (k + 1)"
    unfolding assms(6,7) by blast
  with upright_slope(2) [OF assms(8,9)] have "onSlope c' d' (k + 1) s'"
    unfolding onSlope_def by simp
  with s'(1) show ?thesis by blast
qed

lemma slope_frame_crash:
  assumes "onSlope c d k s" and "0 \<le> c" and "c \<le> 11 / 10" and "0 \<le> k" and "k \<le> 9"
    and "c' = c + 0.92 * (d + 0.15 * (1 - c))"
    and "131 / 100 \<le> c'" and "c' \<le> 14 / 10"
  shows "\<exists>s'. gameLoop now (s\<lparr>inputsRef := noInputs\<rparr>) = Inr s' \<and> gameState s' = CRASHED"
proof -
  from slope_frame [OF assms(1-5), of now]
  obtain s' where "gameLoop now (s\<lparr>inputsRef := noInputs\<rparr>) = Inr s'"
    "gameState s' = (if headCollision (c' * arctan 5) then CRASHED else PLAYING)"
    unfolding assms(6) by blast
  with crash_slope [OF assms(7,8)] show ?thesis
    by simp
qed

lemma onSlope_slopeRide: "onSlope 0 0 0 slopeRide"
  by (simp add: onSlope_def slopeRide_def initialApp_def restBike_def)

lemma slope_frames:
  "\<exists>s'. frames [(0, noInputs), (16, noInputs), (32, noInputs), (48, noInputs), (64, noInputs)]
          slopeRide = Inr s' \<and> gameState s' = CRASHED"
proof -
  obtain s1 where s1: "gameLoop 0 (slopeRide\<lparr>inputsRef := noInputs\<rparr>) = Inr s1"
    "onSlope 0.138 0.138 1 s1"
    using slope_frame_upright [OF onSlope_slopeRide, of "0.138" "0.138" 0] by auto
  obtain s2 where s2: "gameLoop 16 (s1\<lparr>inputsRef := noInputs\<rparr>) = Inr s2"
    "onSlope 0.383916 0.245916 2 s2"
    using slope_frame_upright [OF s1(2), of "0.383916" "0.245916" 16] by auto
  obtain s3 where s3: "gameLoop 32 (s2\<lparr>inputsRef := noInputs\<rparr>) = Inr s3"
    "onSlope 0.695178312 0.311262312 3 s3"
    using slope_frame_upright [OF s2(2), of "0.695178312" "0.311262312" 32] by auto
  obtain s4 where s4: "gameLoop 48 (s3\<lparr>inputsRef := noInputs\<rparr>) = Inr s4"
    "onSlope 1.023605031984 0.328426719984 4 s4"
    using slope_frame_upright [OF s3(2), of "1.023605031984" "0.328426719984" 48] by auto
  obtain s5 where s5: "gameLoop 64 (s4\<lparr>inputsRef := noInputs\<rparr>) = Inr s5"
    "gameState s5 = CRASHED"
    using slope_frame_crash [OF s4(2), of "1.322500119955488" 64] by auto
  show ?thesis
    by (simp add: s1 s2 s3 s4 s5)
qed

text \<open>
  Claim C9 as it is written fails three times. An inverted bike with angular velocity
  2.5 has left the window after one frame and plays on. An upright bike with angular
  velocity 3 crashes in one frame on flat ground with no flag held. And an upright
  bike at rest on the slope of gradient 5 crashes in the fifth frame with no flag held.
\<close>

theorem crash_window_cases_counterexample:
  "angle (restBike\<lparr>angle := pi, angularVelocity := 5 / 2\<rparr>) = pi \<and>
   gameState (stateAfter (gameLoop 0
     (ride 40 (restBike\<lparr>angle := pi, angularVelocity := 5 / 2\<rparr>)))) = PLAYING \<and>
   angle (restBike\<lparr>angularVelocity := 3\<rparr>) = 0 \<and>
   \<not> left (inputsRef (ride 40 (restBike\<lparr>angularVelocity := 3\<rparr>))) \<and>
   \<not> right (inputsRef (ride 40 (restBike\<lparr>angularVelocity := 3\<rparr>))) \<and>
   gameState (stateAfter (gameLoop 0 (ride 40 (restBike\<lparr>angularVelocity := 3\<rparr>)))) = CRASHED \<and>
   angle (bikeRef slopeRide) = 0 \<and> angularVelocity (bikeRef slopeRide) = 0 \<and>
   \<not> left noInputs \<and> \<not> right noInputs \<and>
   gameState (stateAfter (frames
     [(0, noInputs), (16, noInputs), (32, noInputs), (48, noInputs), (64, noInputs)]
     slopeRide)) = CRASHED"
proof -
  let ?A = "ride 40 (restBike\<lparr>angle := pi, angularVelocity := 5 / 2\<rparr>)"
  let ?B = "ride 40 (restBike\<lparr>angularVelocity := 3\<rparr>)"
  have a: "physicsUpdate (bikeRef ?A) (terrainRef ?A) (inputsRef ?A)
      = Inr (restBike\<lparr>angle := pi + 23 / 10, angularVelocity := 23 / 10\<rparr>)"
    using physicsUpdate_ride_spin_inverted [of 40] by (simp add: ride_simps)
  have b: "physicsUpdate (bikeRef ?B) (terrainRef ?B) (inputsRef ?B)
      = Inr (restBike\<lparr>angle := 69 / 25, angularVelocity := 69 / 25\<rparr>)"
    using physicsUpdate_ride_spin [of 40] by (simp add: ride_simps)
  have "gameState (stateAfter (gameLoop 0 ?A)) = PLAYING"
    using gameLoop_no_win [OF _ a, of 0] not_headCollision_spin_inverted
    by (simp add: ride_simps levelGround_simps restBike_def segmentLength_def)
  moreover have "gameState (stateAfter (gameLoop 0 ?B)) = CRASHED"
    using gameLoop_no_win [OF _ b, of 0] headCollision_spin
    by (simp add: ride_simps levelGround_simps restBike_def segmentLength_def)
  moreover have "gameState (stateAfter (frames
     [(0, noInputs), (16, noInputs), (32, noInputs), (48, noInputs), (64, noInputs)]
     slopeRide)) = CRASHED"
    using slope_frames by (auto simp add: stateAfter_def)
  moreover have "angle (bikeRef slopeRide) = 0" "angularVelocity (bikeRef slopeRide) = 0"
    by (simp_all add: slopeRide_def initialApp_def restBike_def)
  ultimately show ?thesis
    by (simp add: ride_simps restBike_def noInputs_def)
qed

end
